theory Spec2Isabelle
  imports Complex_Main
begin

section \<open>Values\<close>

text \<open>
  The dashboard reads daily price records from a JSON API with \<^verbatim>\<open>requests\<close>, turns them
  into a pandas frame (\<^verbatim>\<open>dashboard/data_fetcher.py\<close>) and plots the frame with some
  derived series (\<^verbatim>\<open>dashboard/callbacks.py\<close>).

  A numeric cell is a finite number, an infinity or NaN, the missing-numeric sentinel.
  Finite numbers are exact reals: the rounding of binary64 arithmetic, overflow, signed
  zeros and the difference between integer and floating dtypes are not modelled.
  The special values follow IEEE 754.
\<close>

datatype num = Fin real | PInf | NInf | NaN

fun isnull_num :: "num \<Rightarrow> bool" where
  "isnull_num NaN = True"
| "isnull_num _ = False"

fun isfinite :: "num \<Rightarrow> bool" where
  "isfinite (Fin _) = True"
| "isfinite _ = False"

definition signed_inf :: "real \<Rightarrow> num" where
  "signed_inf x = (if 0 < x then PInf else if x < 0 then NInf else NaN)"

fun num_neg :: "num \<Rightarrow> num" where
  "num_neg (Fin x) = Fin (- x)"
| "num_neg PInf = NInf"
| "num_neg NInf = PInf"
| "num_neg NaN = NaN"

fun num_add :: "num \<Rightarrow> num \<Rightarrow> num" where
  "num_add (Fin x) (Fin y) = Fin (x + y)"
| "num_add NaN _ = NaN"
| "num_add _ NaN = NaN"
| "num_add PInf NInf = NaN"
| "num_add NInf PInf = NaN"
| "num_add PInf _ = PInf"
| "num_add _ PInf = PInf"
| "num_add NInf _ = NInf"
| "num_add _ NInf = NInf"

definition num_sub :: "num \<Rightarrow> num \<Rightarrow> num" where
  "num_sub a b = num_add a (num_neg b)"

fun num_mul :: "num \<Rightarrow> num \<Rightarrow> num" where
  "num_mul (Fin x) (Fin y) = Fin (x * y)"
| "num_mul NaN _ = NaN"
| "num_mul _ NaN = NaN"
| "num_mul PInf (Fin y) = signed_inf y"
| "num_mul NInf (Fin y) = signed_inf (- y)"
| "num_mul (Fin x) PInf = signed_inf x"
| "num_mul (Fin x) NInf = signed_inf (- x)"
| "num_mul PInf PInf = PInf"
| "num_mul NInf NInf = PInf"
| "num_mul PInf NInf = NInf"
| "num_mul NInf PInf = NInf"

fun num_div :: "num \<Rightarrow> num \<Rightarrow> num" where
  "num_div (Fin x) (Fin y) = (if y = 0 then signed_inf x else Fin (x / y))"
| "num_div NaN _ = NaN"
| "num_div _ NaN = NaN"
| "num_div (Fin x) PInf = Fin 0"
| "num_div (Fin x) NInf = Fin 0"
| "num_div PInf (Fin y) = (if y < 0 then NInf else PInf)"
| "num_div NInf (Fin y) = (if y < 0 then PInf else NInf)"
| "num_div PInf PInf = NaN"
| "num_div PInf NInf = NaN"
| "num_div NInf PInf = NaN"
| "num_div NInf NInf = NaN"

fun num_sqrt :: "num \<Rightarrow> num" where
  "num_sqrt (Fin x) = (if x < 0 then NaN else Fin (sqrt x))"
| "num_sqrt PInf = PInf"
| "num_sqrt NInf = NaN"
| "num_sqrt NaN = NaN"

fun num_sum :: "num list \<Rightarrow> num" where
  "num_sum [] = Fin 0"
| "num_sum (v # vs) = num_add v (num_sum vs)"

text \<open>A pandas timestamp: nanoseconds since the epoch, or NaT.\<close>

datatype timestamp = NaT | Timestamp int

text \<open>The order of timestamps; NaT is before nothing and nothing is before it.\<close>

fun before :: "timestamp \<Rightarrow> timestamp \<Rightarrow> bool" where
  "before (Timestamp a) (Timestamp b) = (a < b)"
| "before _ _ = False"

text \<open>
  What \<^verbatim>\<open>response.json()\<close> returns. Python's decoder also accepts the literals
  \<^verbatim>\<open>NaN\<close> and \<^verbatim>\<open>Infinity\<close>, so a JSON number is a \<^typ>\<open>num\<close>. An object is
  the list of its items, looked up with \<^const>\<open>map_of\<close>.
\<close>

datatype json =
    JNull
  | JBool bool
  | JNum num
  | JStr string
  | JArr "json list"
  | JObj "(string \<times> json) list"

fun is_record :: "json \<Rightarrow> bool" where
  "is_record (JObj _) = True"
| "is_record _ = False"

fun keys :: "json \<Rightarrow> string list" where
  "keys (JObj kvs) = map fst kvs"
| "keys _ = []"

fun dict_get :: "json \<Rightarrow> string \<Rightarrow> json option" where
  "dict_get (JObj kvs) k = map_of kvs k"
| "dict_get _ k = None"

section \<open>Exceptions\<close>

text \<open>
  The classes of the exceptions that \<^verbatim>\<open>requests\<close> and pandas raise here, all of them
  subclasses of \<^verbatim>\<open>Exception\<close>. \<open>isinstance e c\<close> is the class hierarchy
  (of \<^verbatim>\<open>requests\<close> with the standard \<^verbatim>\<open>json\<close> module): an \<^verbatim>\<open>except c\<close> clause
  catches \<open>e\<close> when it holds.
\<close>

datatype exn =
    HTTPError
  | ConnectionError
  | Timeout
  | RequestException
  | RequestsJSONDecodeError
  | JSONDecodeError
  | ValueError
  | TypeError
  | AttributeError
  | KeyError
  | DataError
  | Exception

fun isinstance :: "exn \<Rightarrow> exn \<Rightarrow> bool" where
  "isinstance e Exception = True"
| "isinstance e RequestException =
     (e = RequestException \<or> e = HTTPError \<or> e = ConnectionError \<or> e = Timeout
      \<or> e = RequestsJSONDecodeError)"
| "isinstance e JSONDecodeError = (e = JSONDecodeError \<or> e = RequestsJSONDecodeError)"
| "isinstance e ValueError =
     (e = ValueError \<or> e = JSONDecodeError \<or> e = RequestsJSONDecodeError)"
| "isinstance e c = (e = c)"

section \<open>Frames\<close>

text \<open>
  A frame is an index and a list of labelled columns. A column built from the records
  holds the records' values (\<open>None\<close> where a record lacks the key: pandas stores NaN
  there); \<^verbatim>\<open>pd.to_numeric\<close> turns it into a numeric column.
\<close>

datatype label = Name string | Pos nat

datatype column = Objects "json option list" | Numbers "num list"

datatype index = RangeIndex nat | DatetimeIndex "timestamp list"

record dataframe =
  df_index :: index
  df_columns :: "(label \<times> column) list"

definition empty_frame :: dataframe where
  "empty_frame = \<lparr>df_index = RangeIndex 0, df_columns = []\<rparr>"

fun index_size :: "index \<Rightarrow> nat" where
  "index_size (RangeIndex n) = n"
| "index_size (DatetimeIndex ts) = length ts"

definition nrows :: "dataframe \<Rightarrow> nat" where
  "nrows df = index_size (df_index df)"

definition labels :: "dataframe \<Rightarrow> label list" where
  "labels df = map fst (df_columns df)"

definition empty :: "dataframe \<Rightarrow> bool" where
  "empty df = (nrows df = 0 \<or> df_columns df = [])"

text \<open>
  The parts of pandas that depend on its version or on parsers too large to embed are
  parameters: how a non-null value of the \<^verbatim>\<open>Date\<close> column becomes a timestamp (or
  which exception it raises), which strings \<^verbatim>\<open>to_numeric\<close> reads as numbers, the
  columns built from a sequence whose first element is not a record, and whether
  \<^verbatim>\<open>pct_change\<close> forward-fills missing values first (its default before pandas 3).
\<close>

record pandas_lib =
  datetime_of :: "json \<Rightarrow> exn + timestamp"
  float_of :: "string \<Rightarrow> num option"
  array_columns :: "json list \<Rightarrow> exn + column list"
  pct_fill_pad :: bool

definition first_seen :: "'a list \<Rightarrow> 'a list" where
  "first_seen xs = rev (remdups (rev xs))"

text \<open>
  \<^verbatim>\<open>pd.DataFrame(data)\<close> for a list. When the first element is a record the columns are
  the keys of all records in the order first seen, and an element that is not a record
  raises (it has no \<^verbatim>\<open>keys\<close>). Otherwise the columns are labelled by position.
\<close>

definition from_records :: "json list \<Rightarrow> dataframe" where
  "from_records data =
     \<lparr>df_index = RangeIndex (length data),
      df_columns =
        map (\<lambda>k. (Name k, Objects (map (\<lambda>d. dict_get d k) data)))
          (first_seen (concat (map keys data)))\<rparr>"

definition DataFrame :: "pandas_lib \<Rightarrow> json list \<Rightarrow> exn + dataframe" where
  "DataFrame pd data =
     (if data = [] then Inr empty_frame
      else if is_record (hd data) then
        (if list_all is_record data then Inr (from_records data) else Inl AttributeError)
      else
        (case array_columns pd data of
           Inl e \<Rightarrow> Inl e
         | Inr cols \<Rightarrow>
             Inr \<lparr>df_index = RangeIndex (length data),
                  df_columns = zip (map Pos [0..<length cols]) cols\<rparr>))"

definition rename_label :: "(string \<times> string) list \<Rightarrow> label \<Rightarrow> label" where
  "rename_label mapping l =
     (case l of
        Name k \<Rightarrow> (case map_of mapping k of Some k' \<Rightarrow> Name k' | None \<Rightarrow> Name k)
      | Pos n \<Rightarrow> Pos n)"

definition rename :: "(string \<times> string) list \<Rightarrow> dataframe \<Rightarrow> dataframe" where
  "rename mapping df =
     df\<lparr>df_columns := map (\<lambda>(l, c). (rename_label mapping l, c)) (df_columns df)\<rparr>"

text \<open>
  \<^verbatim>\<open>df[col]\<close>: the columns with that label. One column is a series; several (a
  duplicated label) are a frame, which \<^verbatim>\<open>to_datetime\<close> and \<^verbatim>\<open>to_numeric\<close> refuse.
\<close>

definition select :: "dataframe \<Rightarrow> label \<Rightarrow> column list" where
  "select df l = map snd (filter (\<lambda>(l', c). l' = l) (df_columns df))"

definition getitem :: "dataframe \<Rightarrow> string \<Rightarrow> exn + column list" where
  "getitem df col =
     (let sel = select df (Name col) in if sel = [] then Inl KeyError else Inr sel)"

definition setitem :: "dataframe \<Rightarrow> string \<Rightarrow> column \<Rightarrow> dataframe" where
  "setitem df col s =
     (if Name col \<in> set (labels df)
      then df\<lparr>df_columns := map (\<lambda>(l, c). if l = Name col then (l, s) else (l, c)) (df_columns df)\<rparr>
      else df\<lparr>df_columns := df_columns df @ [(Name col, s)]\<rparr>)"

fun to_datetime_cell :: "pandas_lib \<Rightarrow> json option \<Rightarrow> exn + timestamp" where
  "to_datetime_cell pd None = Inr NaT"
| "to_datetime_cell pd (Some JNull) = Inr NaT"
| "to_datetime_cell pd (Some (JNum NaN)) = Inr NaT"
| "to_datetime_cell pd (Some v) = datetime_of pd v"

fun to_datetime_cells :: "pandas_lib \<Rightarrow> json option list \<Rightarrow> exn + timestamp list" where
  "to_datetime_cells pd [] = Inr []"
| "to_datetime_cells pd (c # cs) =
     (case to_datetime_cell pd c of
        Inl e \<Rightarrow> Inl e
      | Inr t \<Rightarrow> (case to_datetime_cells pd cs of Inl e \<Rightarrow> Inl e | Inr ts \<Rightarrow> Inr (t # ts)))"

fun cells :: "column \<Rightarrow> json option list" where
  "cells (Objects vs) = vs"
| "cells (Numbers xs) = map (\<lambda>x. Some (JNum x)) xs"

text \<open>\<^verbatim>\<open>pd.to_datetime(df[col])\<close>: missing values become NaT, a value that does not parse raises.\<close>

definition to_datetime :: "pandas_lib \<Rightarrow> column list \<Rightarrow> exn + timestamp list" where
  "to_datetime pd sel =
     (case sel of [s] \<Rightarrow> to_datetime_cells pd (cells s) | _ \<Rightarrow> Inl ValueError)"

text \<open>
  \<^verbatim>\<open>df[col] = dates; df.set_index(col, inplace=True)\<close>: the column leaves the frame and
  becomes its index.
\<close>

definition set_index :: "dataframe \<Rightarrow> string \<Rightarrow> timestamp list \<Rightarrow> dataframe" where
  "set_index df col dates =
     \<lparr>df_index = DatetimeIndex dates,
      df_columns = filter (\<lambda>(l, c). l \<noteq> Name col) (df_columns df)\<rparr>"

text \<open>
  \<^verbatim>\<open>pd.to_numeric(series, errors='coerce')\<close>, value by value: a number stays, a boolean
  counts as 1 or 0, a string is parsed, and whatever does not parse becomes NaN.
\<close>

fun to_numeric_cell :: "pandas_lib \<Rightarrow> json option \<Rightarrow> num" where
  "to_numeric_cell pd None = NaN"
| "to_numeric_cell pd (Some JNull) = NaN"
| "to_numeric_cell pd (Some (JBool b)) = Fin (if b then 1 else 0)"
| "to_numeric_cell pd (Some (JNum x)) = x"
| "to_numeric_cell pd (Some (JStr s)) =
     (if s = [] then NaN else case float_of pd s of Some x \<Rightarrow> x | None \<Rightarrow> NaN)"
| "to_numeric_cell pd (Some (JArr _)) = NaN"
| "to_numeric_cell pd (Some (JObj _)) = NaN"

fun to_numeric_series :: "pandas_lib \<Rightarrow> column \<Rightarrow> column" where
  "to_numeric_series pd (Objects vs) = Numbers (map (to_numeric_cell pd) vs)"
| "to_numeric_series pd (Numbers xs) = Numbers xs"

definition to_numeric :: "pandas_lib \<Rightarrow> column list \<Rightarrow> exn + column" where
  "to_numeric pd sel =
     (case sel of [s] \<Rightarrow> Inr (to_numeric_series pd s) | _ \<Rightarrow> Inl TypeError)"

fun isnull_cell :: "json option \<Rightarrow> bool" where
  "isnull_cell None = True"
| "isnull_cell (Some JNull) = True"
| "isnull_cell (Some (JNum NaN)) = True"
| "isnull_cell _ = False"

fun isnull :: "column \<Rightarrow> bool list" where
  "isnull (Objects vs) = map isnull_cell vs"
| "isnull (Numbers xs) = map isnull_num xs"

definition any_null :: "dataframe \<Rightarrow> bool" where
  "any_null df = list_ex (\<lambda>(l, c). list_ex (\<lambda>b. b) (isnull c)) (df_columns df)"

section \<open>The HTTP client\<close>

text \<open>
  The remote source is a function from the requested URL to what \<^verbatim>\<open>requests.get\<close>
  does with it: it raises (no route, timeout, ...) or returns a response with a status
  code, whose body \<^verbatim>\<open>json()\<close> decodes or fails to decode.
\<close>

record response =
  status_code :: nat
  json_result :: "exn + json"

definition raise_for_status :: "response \<Rightarrow> exn + unit" where
  "raise_for_status r =
     (if 400 \<le> status_code r \<and> status_code r < 600 then Inl HTTPError else Inr ())"

section \<open>\<^verbatim>\<open>fetch_stock_data\<close>\<close>

text \<open>What the function prints, one constructor for each \<^verbatim>\<open>print\<close> of the source.\<close>

datatype msg =
    Attempting string
  | DecodeErrorMsg
  | DecodeErrorRequestsMsg
  | InvalidFormatMsg
  | SymbolWarning string
  | NoDataPointsMsg
  | MissingColumnsMsg
  | NonNumericWarning
  | HTTPErrorMsg
  | RequestErrorMsg
  | UnexpectedErrorMsg exn

text \<open>
  \<^verbatim>\<open>str.upper\<close> on the ASCII letters. The comparison it serves only decides whether a
  warning is printed.
\<close>

definition upper_char :: "char \<Rightarrow> char" where
  "upper_char c =
     (case map_of (zip ''abcdefghijklmnopqrstuvwxyz'' ''ABCDEFGHIJKLMNOPQRSTUVWXYZ'') c of
        Some u \<Rightarrow> u
      | None \<Rightarrow> c)"

definition upper :: "string \<Rightarrow> string" where
  "upper s = map upper_char s"

definition column_mapping :: "(string \<times> string) list" where
  "column_mapping =
     [(''date'', ''Date''), (''open'', ''Open''), (''high'', ''High''),
      (''low'', ''Low''), (''close'', ''Close''), (''volume'', ''Volume'')]"

definition required_cols :: "string list" where
  "required_cols = [''Date'', ''Open'', ''High'', ''Low'', ''Close'', ''Volume'']"

definition numeric_cols :: "string list" where
  "numeric_cols = [''Open'', ''High'', ''Low'', ''Close'']"

text \<open>
  Two notions to speak about the records of a payload: the values that the records hold
  under a key (\<open>None\<close> where a record lacks it), and the keys of the records that the
  renaming of line 70 maps to a label. A label with no such key is a column that is
  absent from the whole payload; a label with two of them (\<^verbatim>\<open>open\<close> next to \<^verbatim>\<open>Open\<close>)
  is a duplicated column.
\<close>

definition column_of :: "json list \<Rightarrow> string \<Rightarrow> json option list" where
  "column_of data k = map (\<lambda>d. dict_get d k) data"

definition source_keys :: "json list \<Rightarrow> label \<Rightarrow> string list" where
  "source_keys data l =
     filter (\<lambda>k. rename_label column_mapping (Name k) = l) (first_seen (concat (map keys data)))"

text \<open>\<^verbatim>\<open>df[col] = pd.to_numeric(df[col], errors='coerce')\<close>\<close>

definition coerce_column :: "pandas_lib \<Rightarrow> dataframe \<Rightarrow> string \<Rightarrow> exn + dataframe" where
  "coerce_column pd df col =
     (case getitem df col of
        Inl e \<Rightarrow> Inl e
      | Inr sel \<Rightarrow>
          (case to_numeric pd sel of Inl e \<Rightarrow> Inl e | Inr s \<Rightarrow> Inr (setitem df col s)))"

text \<open>\<^verbatim>\<open>for col in cols: df[col] = pd.to_numeric(df[col], errors='coerce')\<close>\<close>

fun coerce_columns :: "pandas_lib \<Rightarrow> string list \<Rightarrow> dataframe \<Rightarrow> exn + dataframe" where
  "coerce_columns pd [] df = Inr df"
| "coerce_columns pd (col # cols) df =
     (case coerce_column pd df col of
        Inl e \<Rightarrow> Inl e
      | Inr df' \<Rightarrow> coerce_columns pd cols df')"

text \<open>
  Lines 56 to 91: the frame of the records, the renaming, the column gate, the dates as
  index, the numeric coercion. The result is what was printed and either the exception
  raised or the frame returned.
\<close>

definition convert :: "pandas_lib \<Rightarrow> json list \<Rightarrow> msg list \<times> (exn + dataframe)" where
  "convert pd data =
     (case DataFrame pd data of
        Inl e \<Rightarrow> ([], Inl e)
      | Inr df0 \<Rightarrow>
          (let df = rename column_mapping df0 in
           if \<not> list_all (\<lambda>col. Name col \<in> set (labels df)) required_cols
           then ([MissingColumnsMsg], Inr empty_frame)
           else
             (case getitem df ''Date'' of
                Inl e \<Rightarrow> ([], Inl e)
              | Inr sel \<Rightarrow>
                  (case to_datetime pd sel of
                     Inl e \<Rightarrow> ([], Inl e)
                   | Inr dates \<Rightarrow>
                       (case coerce_columns pd numeric_cols (set_index df ''Date'' dates) of
                          Inl e \<Rightarrow> ([], Inl e)
                        | Inr df1 \<Rightarrow>
                            (case coerce_column pd df1 ''Volume'' of
                               Inl e \<Rightarrow> ([], Inl e)
                             | Inr df2 \<Rightarrow>
                                 (if any_null df2 then [NonNumericWarning] else [], Inr df2)))))))"

text \<open>
  Lines 40 to 53: the structural gate, the symbol comparison (a value without
  \<^verbatim>\<open>upper\<close> raises \<^verbatim>\<open>AttributeError\<close>) and the emptiness check.
\<close>

definition check_symbol :: "string \<Rightarrow> json \<Rightarrow> exn + msg list" where
  "check_symbol symbol v =
     (case v of
        JStr s \<Rightarrow> Inr (if upper s \<noteq> upper symbol then [SymbolWarning s] else [])
      | _ \<Rightarrow> Inl AttributeError)"

fun process :: "pandas_lib \<Rightarrow> string \<Rightarrow> json \<Rightarrow> msg list \<times> (exn + dataframe)" where
  "process pd symbol (JObj kvs) =
     (case (map_of kvs ''symbol'', map_of kvs ''data'') of
        (Some v, Some (JArr data)) \<Rightarrow>
          (case check_symbol symbol v of
             Inl e \<Rightarrow> ([], Inl e)
           | Inr warning \<Rightarrow>
               if data = [] then (warning @ [NoDataPointsMsg], Inr empty_frame)
               else (case convert pd data of (printed, r) \<Rightarrow> (warning @ printed, r)))
      | _ \<Rightarrow> ([InvalidFormatMsg], Inr empty_frame))"
| "process pd symbol _ = ([InvalidFormatMsg], Inr empty_frame)"

text \<open>The body of the outer \<^verbatim>\<open>try\<close>, lines 25 to 91, with the inner handlers of lines 31 to 36.\<close>

definition try_body ::
  "pandas_lib \<Rightarrow> (string \<Rightarrow> exn + response) \<Rightarrow> string \<Rightarrow> string \<Rightarrow> msg list \<times> (exn + dataframe)"
where
  "try_body pd requests_get symbol api_url =
     (case requests_get api_url of
        Inl e \<Rightarrow> ([], Inl e)
      | Inr r \<Rightarrow>
          (case raise_for_status r of
             Inl e \<Rightarrow> ([], Inl e)
           | Inr _ \<Rightarrow>
               (case json_result r of
                  Inl e \<Rightarrow>
                    if isinstance e JSONDecodeError then ([DecodeErrorMsg], Inr empty_frame)
                    else if isinstance e RequestsJSONDecodeError
                    then ([DecodeErrorRequestsMsg], Inr empty_frame)
                    else ([], Inl e)
                | Inr parsed_json_data \<Rightarrow> process pd symbol parsed_json_data)))"

text \<open>The \<^verbatim>\<open>except\<close> clauses of lines 93 to 101, tried in order.\<close>

definition except_clauses :: "exn \<Rightarrow> msg list \<times> (exn + dataframe)" where
  "except_clauses e =
     (if isinstance e HTTPError then ([HTTPErrorMsg], Inr empty_frame)
      else if isinstance e RequestException then ([RequestErrorMsg], Inr empty_frame)
      else if isinstance e Exception then ([UnexpectedErrorMsg e], Inr empty_frame)
      else ([], Inl e))"

definition api_url_of :: "string \<Rightarrow> string \<Rightarrow> string \<Rightarrow> string \<Rightarrow> string" where
  "api_url_of api_base_url symbol start_date end_date =
     api_base_url @ ''/data/stock/'' @ symbol @ ''?from='' @ start_date @ ''&to='' @ end_date"

text \<open>
  The result is the list of what was printed, and \<open>Inr\<close> the frame returned or
  \<open>Inl\<close> an exception that leaves the function.
\<close>

definition fetch_stock_data ::
  "pandas_lib \<Rightarrow> (string \<Rightarrow> exn + response) \<Rightarrow> string \<Rightarrow> string \<Rightarrow> string \<Rightarrow> string
     \<Rightarrow> msg list \<times> (exn + dataframe)"
where
  "fetch_stock_data pd requests_get symbol start_date end_date api_base_url =
     (let api_url = api_url_of api_base_url symbol start_date end_date in
      case try_body pd requests_get symbol api_url of
        (printed, Inr df) \<Rightarrow> (Attempting api_url # printed, Inr df)
      | (printed, Inl e) \<Rightarrow>
          (case except_clauses e of (printed', r) \<Rightarrow> (Attempting api_url # printed @ printed', r)))"

section \<open>Derived series\<close>

text \<open>
  \<^verbatim>\<open>series.rolling(window=w, min_periods=m)\<close>: the window of row \<open>t\<close> is the rows
  \<open>t - w + 1\<close> to \<open>t\<close> that exist, missing values are not observations, and a window
  with fewer than \<open>m\<close> observations yields NaN. (For a window that holds an infinity
  the aggregate below is the IEEE one; the incremental kernels of pandas can differ
  there, and nothing below is stated about such windows.)
\<close>

definition window :: "nat \<Rightarrow> nat \<Rightarrow> 'a list \<Rightarrow> 'a list" where
  "window w t xs = drop (Suc t - w) (take (Suc t) xs)"

definition observed :: "num list \<Rightarrow> num list" where
  "observed ws = filter (\<lambda>v. \<not> isnull_num v) ws"

definition rolling :: "nat \<Rightarrow> nat \<Rightarrow> (num list \<Rightarrow> num) \<Rightarrow> num list \<Rightarrow> num list" where
  "rolling w min_periods agg xs =
     map (\<lambda>t. let obs = observed (window w t xs)
              in if length obs < min_periods then NaN else agg obs)
       [0..<length xs]"

definition mean :: "num list \<Rightarrow> num" where
  "mean obs = num_div (num_sum obs) (Fin (real (length obs)))"

text \<open>\<^verbatim>\<open>std()\<close> is the sample standard deviation (\<^verbatim>\<open>ddof=1\<close>): NaN for one observation.\<close>

definition var :: "num list \<Rightarrow> num" where
  "var obs =
     (if length obs \<le> 1 then NaN
      else num_div
             (num_sum (map (\<lambda>v. num_mul (num_sub v (mean obs)) (num_sub v (mean obs))) obs))
             (Fin (real (length obs - 1))))"

definition std :: "num list \<Rightarrow> num" where
  "std obs = num_sqrt (var obs)"

text \<open>
  \<^verbatim>\<open>series.pct_change()\<close> is \<^verbatim>\<open>data / data.shift(1) - 1\<close>, where \<^verbatim>\<open>data\<close> is the series,
  forward-filled first when the library does so.
\<close>

fun ffill_from :: "num \<Rightarrow> num list \<Rightarrow> num list" where
  "ffill_from prev [] = []"
| "ffill_from prev (v # vs) =
     (if isnull_num v then prev # ffill_from prev vs else v # ffill_from v vs)"

definition ffill :: "num list \<Rightarrow> num list" where
  "ffill xs = ffill_from NaN xs"

definition shift :: "num list \<Rightarrow> num list" where
  "shift xs = (if xs = [] then [] else NaN # butlast xs)"

definition pct_change :: "pandas_lib \<Rightarrow> num list \<Rightarrow> num list" where
  "pct_change pd xs =
     (let data = (if pct_fill_pad pd then ffill xs else xs)
      in map (\<lambda>(a, b). num_sub (num_div a b) (Fin 1)) (zip data (shift data)))"

section \<open>\<^verbatim>\<open>update_charts\<close>\<close>

text \<open>
  A figure is its traces and its title; the other layout attributes are left out. The
  callback adds the derived columns (\<^verbatim>\<open>MA50\<close>, \<^verbatim>\<open>MA200\<close>, \<^verbatim>\<open>Daily Return\<close>,
  \<^verbatim>\<open>Volatility\<close>) to the frame it fetched and plots them from there. That frame is
  local to the callback: what it returns are the four figures and the message.
\<close>

datatype trace_kind = Scatter | Bar

record trace =
  kind :: trace_kind
  trace_name :: string
  trace_x :: index
  trace_y :: column

record figure =
  traces :: "trace list"
  title_text :: string

record outputs =
  price_fig :: figure
  volume_fig :: figure
  daily_returns_fig :: figure
  volatility_fig :: figure
  error_message :: string
  error_className :: string

definition truthy :: "string option \<Rightarrow> bool" where
  "truthy v = (case v of None \<Rightarrow> False | Some s \<Rightarrow> s \<noteq> [])"

definition or_empty :: "'a list option \<Rightarrow> 'a list" where
  "or_empty v = (case v of None \<Rightarrow> [] | Some xs \<Rightarrow> xs)"

text \<open>\<^verbatim>\<open>df[col]\<close> used as a series.\<close>

definition series :: "dataframe \<Rightarrow> string \<Rightarrow> exn + column" where
  "series df col =
     (case getitem df col of
        Inl e \<Rightarrow> Inl e
      | Inr sel \<Rightarrow> (case sel of [s] \<Rightarrow> Inr s | _ \<Rightarrow> Inl ValueError))"

text \<open>
  The values a rolling aggregate or \<^verbatim>\<open>pct_change\<close> works on. A column of objects is
  refused; \<^verbatim>\<open>fetch_stock_data\<close> never returns one under \<^verbatim>\<open>Close\<close>.
\<close>

fun numeric_values :: "column \<Rightarrow> exn + num list" where
  "numeric_values (Numbers xs) = Inr xs"
| "numeric_values (Objects vs) = Inl DataError"

definition isnull_all :: "column \<Rightarrow> bool" where
  "isnull_all s = list_all (\<lambda>b. b) (isnull s)"

text \<open>
  Lines 69 to 72 and 74 to 77. When \<open>col\<close> is selected, the moving average over \<open>w\<close>
  rows becomes the column \<open>col\<close> of the frame, and it is plotted from there unless every
  value is null.
\<close>

definition moving_average ::
  "string list \<Rightarrow> string \<Rightarrow> nat \<Rightarrow> string \<Rightarrow> dataframe \<Rightarrow> exn + dataframe \<times> trace list"
where
  "moving_average ma_selected_values col w name df =
     (if col \<in> set ma_selected_values then
        (case series df ''Close'' of
           Inl e \<Rightarrow> Inl e
         | Inr close \<Rightarrow>
             (case numeric_values close of
                Inl e \<Rightarrow> Inl e
              | Inr xs \<Rightarrow>
                  (let df' = setitem df col (Numbers (rolling w 1 mean xs)) in
                   case series df' col of
                     Inl e \<Rightarrow> Inl e
                   | Inr ma \<Rightarrow>
                       Inr (df',
                            if \<not> isnull_all ma
                            then [\<lparr>kind = Scatter, trace_name = name, trace_x = df_index df',
                                   trace_y = ma\<rparr>]
                            else []))))
      else Inr (df, []))"

text \<open>Lines 64 to 85.\<close>

definition price_chart ::
  "string \<Rightarrow> string list \<Rightarrow> dataframe \<Rightarrow> exn + dataframe \<times> figure"
where
  "price_chart symbol ma_selected_values df =
     (case series df ''Close'' of
        Inl e \<Rightarrow> Inl e
      | Inr close \<Rightarrow>
          (let t0 = \<lparr>kind = Scatter, trace_name = ''Close'', trace_x = df_index df,
                     trace_y = close\<rparr>;
               title = symbol @ '' Stock Price with Moving Averages''
           in if Name ''Close'' \<in> set (labels df) then
                (case moving_average ma_selected_values ''MA50'' 50 ''50-Day MA'' df of
                   Inl e \<Rightarrow> Inl e
                 | Inr (df1, t50) \<Rightarrow>
                     (case moving_average ma_selected_values ''MA200'' 200 ''200-Day MA'' df1 of
                        Inl e \<Rightarrow> Inl e
                      | Inr (df2, t200) \<Rightarrow>
                          Inr (df2, \<lparr>traces = t0 # t50 @ t200, title_text = title\<rparr>)))
              else Inr (df, \<lparr>traces = [t0], title_text = title\<rparr>)))"

text \<open>Lines 88 to 96.\<close>

definition volume_chart :: "string \<Rightarrow> dataframe \<Rightarrow> exn + figure" where
  "volume_chart symbol df =
     (case series df ''Volume'' of
        Inl e \<Rightarrow> Inl e
      | Inr volume \<Rightarrow>
          Inr \<lparr>traces = [\<lparr>kind = Bar, trace_name = ''Volume'', trace_x = df_index df,
                           trace_y = volume\<rparr>],
               title_text = symbol @ '' Trading Volume''\<rparr>)"

definition placeholder :: "string \<Rightarrow> figure" where
  "placeholder title = \<lparr>traces = [], title_text = title\<rparr>"

definition column_size :: "column \<Rightarrow> nat" where
  "column_size c = length (cells c)"

text \<open>Lines 99 to 109.\<close>

definition daily_returns_chart ::
  "pandas_lib \<Rightarrow> string \<Rightarrow> string list \<Rightarrow> dataframe \<Rightarrow> exn + dataframe \<times> figure"
where
  "daily_returns_chart pd symbol return_toggle_value df =
     (if ''SHOW_RETURNS'' \<in> set return_toggle_value \<and> Name ''Close'' \<in> set (labels df) then
        (case series df ''Close'' of
           Inl e \<Rightarrow> Inl e
         | Inr close \<Rightarrow>
             if column_size close = 0
             then Inr (df, placeholder ''Daily Returns (Toggle On or No Data)'')
             else
               (case numeric_values close of
                  Inl e \<Rightarrow> Inl e
                | Inr xs \<Rightarrow>
                    (let df' = setitem df ''Daily Return''
                                 (Numbers (map (\<lambda>v. num_mul v (Fin 100)) (pct_change pd xs)))
                     in case series df' ''Daily Return'' of
                          Inl e \<Rightarrow> Inl e
                        | Inr daily \<Rightarrow>
                            Inr (df',
                                 \<lparr>traces =
                                    [\<lparr>kind = Bar, trace_name = ''Daily Return'',
                                      trace_x = df_index df', trace_y = daily\<rparr>],
                                  title_text = symbol @ '' Daily Return Rates (%)''\<rparr>))))
      else Inr (df, placeholder ''Daily Returns (Toggle On or No Data)''))"

text \<open>Lines 112 to 122.\<close>

definition volatility_chart ::
  "string \<Rightarrow> string list \<Rightarrow> dataframe \<Rightarrow> exn + dataframe \<times> figure"
where
  "volatility_chart symbol volatility_toggle_value df =
     (if ''SHOW_VOLATILITY'' \<in> set volatility_toggle_value \<and> Name ''Close'' \<in> set (labels df)
      then
        (case series df ''Close'' of
           Inl e \<Rightarrow> Inl e
         | Inr close \<Rightarrow>
             if column_size close = 0
             then Inr (df, placeholder ''Volatility (Toggle On or No Data)'')
             else
               (case numeric_values close of
                  Inl e \<Rightarrow> Inl e
                | Inr xs \<Rightarrow>
                    (let df' = setitem df ''Volatility'' (Numbers (rolling 30 1 std xs))
                     in case series df' ''Volatility'' of
                          Inl e \<Rightarrow> Inl e
                        | Inr volatility \<Rightarrow>
                            Inr (df',
                                 \<lparr>traces =
                                    [\<lparr>kind = Scatter, trace_name = ''30-Day Volatility'',
                                      trace_x = df_index df', trace_y = volatility\<rparr>],
                                  title_text = symbol @ '' 30-Day Price Volatility''\<rparr>))))
      else Inr (df, placeholder ''Volatility (Toggle On or No Data)''))"

text \<open>
  Lines 63 to 125: the four figures of a frame that is not empty, each statement working
  on the frame that the one before left.
\<close>

definition charts ::
  "pandas_lib \<Rightarrow> string \<Rightarrow> string list \<Rightarrow> string list \<Rightarrow> string list \<Rightarrow> dataframe
     \<Rightarrow> exn + outputs"
where
  "charts pd symbol ma_selected_values return_toggle_value volatility_toggle_value df =
     (case price_chart symbol ma_selected_values df of
        Inl e \<Rightarrow> Inl e
      | Inr (df1, price) \<Rightarrow>
          (case volume_chart symbol df1 of
             Inl e \<Rightarrow> Inl e
           | Inr volume \<Rightarrow>
               (case daily_returns_chart pd symbol return_toggle_value df1 of
                  Inl e \<Rightarrow> Inl e
                | Inr (df2, returns) \<Rightarrow>
                    (case volatility_chart symbol volatility_toggle_value df2 of
                       Inl e \<Rightarrow> Inl e
                     | Inr (df3, volatility) \<Rightarrow>
                         Inr \<lparr>price_fig = price, volume_fig = volume,
                              daily_returns_fig = returns, volatility_fig = volatility,
                              error_message = [], error_className = []\<rparr>))))"

definition no_data_message :: "string \<Rightarrow> string \<Rightarrow> string \<Rightarrow> string" where
  "no_data_message symbol start_date end_date =
     ''Error: No data found for symbol '' @ [CHR 0x27] @ symbol @ [CHR 0x27] @ '' from ''
       @ start_date @ '' to '' @ end_date
       @ ''. Please check the symbol or try a different range.''"

text \<open>
  The callback. Its inputs come from the page and may be \<^verbatim>\<open>None\<close>. An exception of
  \<^verbatim>\<open>fetch_stock_data\<close> or of the chart code would leave it (\<open>Inl\<close>).
\<close>

definition update_charts ::
  "pandas_lib \<Rightarrow> (string \<Rightarrow> exn + response) \<Rightarrow> string option \<Rightarrow> string option \<Rightarrow> string option
     \<Rightarrow> string list option \<Rightarrow> string list option \<Rightarrow> string list option \<Rightarrow> exn + outputs"
where
  "update_charts pd requests_get symbol start_date end_date ma_selected_values
       return_toggle_value volatility_toggle_value =
     (if \<not> (truthy symbol \<and> truthy start_date \<and> truthy end_date)
      then Inr \<lparr>price_fig = placeholder [], volume_fig = placeholder [],
                daily_returns_fig = placeholder [], volatility_fig = placeholder [],
                error_message =
                  ''Please ensure a stock symbol, start date, and end date are selected.'',
                error_className = ''error''\<rparr>
      else
        (let sym = or_empty symbol; sd = or_empty start_date; ed = or_empty end_date in
         case snd (fetch_stock_data pd requests_get sym sd ed ''http://localhost:8000'') of
           Inl e \<Rightarrow> Inl e
         | Inr df \<Rightarrow>
             if empty df
             then Inr \<lparr>price_fig = placeholder (''Stock Price for '' @ sym @ '' (No Data)''),
                       volume_fig = placeholder (''Trading Volume for '' @ sym @ '' (No Data)''),
                       daily_returns_fig = placeholder ''Daily Returns (Toggle On or No Data)'',
                       volatility_fig = placeholder ''Volatility (Toggle On or No Data)'',
                       error_message = no_data_message sym sd ed,
                       error_className = ''error''\<rparr>
             else charts pd sym (or_empty ma_selected_values) (or_empty return_toggle_value)
                    (or_empty volatility_toggle_value) df))"

section \<open>A library instance and remote sources for the examples\<close>

text \<open>
  The examples below run the functions on concrete payloads. They use an instance of the
  library parameters that reads calendar dates \<^verbatim>\<open>YYYY-MM-DD\<close> (midnight of that day)
  and plain decimal numerals, and refuses every other value; it builds one positional
  column from a sequence that does not start with a record.
\<close>

definition digit :: "char \<Rightarrow> nat option" where
  "digit c = map_of (zip ''0123456789'' [0, 1, 2, 3, 4, 5, 6, 7, 8, 9]) c"

fun digits_from :: "nat \<Rightarrow> string \<Rightarrow> nat option" where
  "digits_from acc [] = Some acc"
| "digits_from acc (c # cs) =
     (case digit c of None \<Rightarrow> None | Some d \<Rightarrow> digits_from (10 * acc + d) cs)"

definition natural :: "string \<Rightarrow> nat option" where
  "natural s = (if s = [] then None else digits_from 0 s)"

definition is_leap :: "nat \<Rightarrow> bool" where
  "is_leap y = (y mod 4 = 0 \<and> (y mod 100 \<noteq> 0 \<or> y mod 400 = 0))"

definition days_in_month :: "nat \<Rightarrow> nat \<Rightarrow> nat" where
  "days_in_month y m =
     (if m = 2 then (if is_leap y then 29 else 28)
      else if m = 4 \<or> m = 6 \<or> m = 9 \<or> m = 11 then 30 else 31)"

definition days_from_civil :: "nat \<Rightarrow> nat \<Rightarrow> nat \<Rightarrow> int" where
  "days_from_civil y m d =
     (let y' = int y - (if m \<le> 2 then 1 else 0);
          era = y' div 400;
          yoe = y' - era * 400;
          mp = (int m + 9) mod 12;
          doy = (153 * mp + 2) div 5 + int d - 1;
          doe = yoe * 365 + yoe div 4 - yoe div 100 + doy
      in era * 146097 + doe - 719468)"

definition iso_date :: "string \<Rightarrow> exn + timestamp" where
  "iso_date s =
     (if length s = 10 \<and> s ! 4 = CHR ''-'' \<and> s ! 7 = CHR ''-'' then
        (case (natural (take 4 s), natural (take 2 (drop 5 s)), natural (drop 8 s)) of
           (Some y, Some m, Some d) \<Rightarrow>
             if 1 \<le> m \<and> m \<le> 12 \<and> 1 \<le> d \<and> d \<le> days_in_month y m
             then Inr (Timestamp (days_from_civil y m d * 86400000000000))
             else Inl ValueError
         | _ \<Rightarrow> Inl ValueError)
      else Inl ValueError)"

fun iso_datetime_of :: "json \<Rightarrow> exn + timestamp" where
  "iso_datetime_of (JStr s) = iso_date s"
| "iso_datetime_of _ = Inl TypeError"

definition decimal :: "string \<Rightarrow> num option" where
  "decimal s =
     (let ip = takeWhile (\<lambda>c. c \<noteq> CHR ''.'') s;
          fp = drop (Suc (length ip)) s
      in case (natural ip, digits_from 0 fp) of
           (Some i, Some f) \<Rightarrow> Some (Fin (real i + real f / 10 ^ length fp))
         | _ \<Rightarrow> None)"

definition pd0 :: pandas_lib where
  "pd0 = \<lparr>datetime_of = iso_datetime_of, float_of = decimal,
          array_columns = (\<lambda>data. Inr [Objects (map Some data)]), pct_fill_pad = True\<rparr>"

text \<open>A point record, its fields in the order of the repository's test payloads.\<close>

definition point :: "string \<Rightarrow> json \<Rightarrow> json \<Rightarrow> json \<Rightarrow> json \<Rightarrow> json \<Rightarrow> json" where
  "point date opn cls high low volume =
     JObj [(''date'', JStr date), (''open'', opn), (''close'', cls), (''high'', high),
           (''low'', low), (''volume'', volume)]"

definition payload :: "json \<Rightarrow> json list \<Rightarrow> json" where
  "payload symbol data = JObj [(''symbol'', symbol), (''data'', JArr data)]"

text \<open>A remote source that answers every request with the given status and body.\<close>

definition answers :: "nat \<Rightarrow> exn + json \<Rightarrow> string \<Rightarrow> exn + response" where
  "answers status body url = Inr \<lparr>status_code = status, json_result = body\<rparr>"

definition sample_data :: "json list" where
  "sample_data =
     [point ''2024-01-01'' (JNum (Fin 150)) (JNum (Fin 155)) (JNum (Fin 157)) (JNum (Fin 149))
        (JNum (Fin 1000000)),
      point ''2024-01-02'' (JNum (Fin 156)) (JNum (Fin 158)) (JNum (Fin 159)) (JNum (Fin 154))
        (JNum (Fin 1100000))]"

text \<open>
  Payloads: dates out of order and repeated; the non-numeric \<^verbatim>\<open>open\<close> of the
  repository's test; the same with a date that does not parse; a record without
  \<^verbatim>\<open>open\<close> beside one that has it; and no \<^verbatim>\<open>open\<close> at all.
\<close>

definition unordered_data :: "json list" where
  "unordered_data =
     [point ''2024-01-02'' (JNum (Fin 156)) (JNum (Fin 158)) (JNum (Fin 159)) (JNum (Fin 154))
        (JNum (Fin 1100000)),
      point ''2024-01-01'' (JNum (Fin 150)) (JNum (Fin 155)) (JNum (Fin 157)) (JNum (Fin 149))
        (JNum (Fin 1000000)),
      point ''2024-01-01'' (JNum (Fin 151)) (JNum (Fin 152)) (JNum (Fin 153)) (JNum (Fin 150))
        (JNum (Fin 900000))]"

definition corrupt_data :: "json list" where
  "corrupt_data =
     [point ''2024-01-01'' (JStr ''x'') (JNum (Fin 155)) (JNum (Fin 157)) (JNum (Fin 149))
        (JNum (Fin 1000000)),
      point ''2024-01-02'' (JNum (Fin 156)) (JNum (Fin 158)) (JNum (Fin 159)) (JNum (Fin 154))
        (JNum (Fin 1100000))]"

definition undated_data :: "json list" where
  "undated_data =
     [point ''not-a-date'' (JStr ''x'') (JNum (Fin 155)) (JNum (Fin 157)) (JNum (Fin 149))
        (JNum (Fin 1000000))]"

definition partial_data :: "json list" where
  "partial_data =
     [point ''2024-01-01'' (JNum (Fin 150)) (JNum (Fin 155)) (JNum (Fin 157)) (JNum (Fin 149))
        (JNum (Fin 1000000)),
      JObj [(''date'', JStr ''2024-01-02''), (''close'', JNum (Fin 158)),
            (''high'', JNum (Fin 159)), (''low'', JNum (Fin 154)),
            (''volume'', JNum (Fin 1100000))]]"

definition headless_data :: "json list" where
  "headless_data =
     [JObj [(''date'', JStr ''2024-01-01''), (''close'', JNum (Fin 155)),
            (''high'', JNum (Fin 157)), (''low'', JNum (Fin 149)),
            (''volume'', JNum (Fin 1000000))]]"

text \<open>
  Closing prices 100 and 110; a payload whose \<^verbatim>\<open>close\<close> is never a number; and the
  frames that the fetcher returns for these and for the first payload.
\<close>

definition sample_frame :: dataframe where
  "sample_frame =
     \<lparr>df_index = DatetimeIndex [Timestamp 1704067200000000000, Timestamp 1704153600000000000],
      df_columns =
        [(Name ''Open'', Numbers [Fin 150, Fin 156]),
         (Name ''Close'', Numbers [Fin 155, Fin 158]),
         (Name ''High'', Numbers [Fin 157, Fin 159]),
         (Name ''Low'', Numbers [Fin 149, Fin 154]),
         (Name ''Volume'', Numbers [Fin 1000000, Fin 1100000])]\<rparr>"

definition rise_data :: "json list" where
  "rise_data =
     [point ''2024-01-01'' (JNum (Fin 99)) (JNum (Fin 100)) (JNum (Fin 101)) (JNum (Fin 98))
        (JNum (Fin 1000)),
      point ''2024-01-02'' (JNum (Fin 100)) (JNum (Fin 110)) (JNum (Fin 111)) (JNum (Fin 99))
        (JNum (Fin 1200))]"

definition rise_frame :: dataframe where
  "rise_frame =
     \<lparr>df_index = DatetimeIndex [Timestamp 1704067200000000000, Timestamp 1704153600000000000],
      df_columns =
        [(Name ''Open'', Numbers [Fin 99, Fin 100]),
         (Name ''Close'', Numbers [Fin 100, Fin 110]),
         (Name ''High'', Numbers [Fin 101, Fin 111]),
         (Name ''Low'', Numbers [Fin 98, Fin 99]),
         (Name ''Volume'', Numbers [Fin 1000, Fin 1200])]\<rparr>"

definition closeless_data :: "json list" where
  "closeless_data =
     [point ''2024-01-01'' (JNum (Fin 150)) (JStr ''n/a'') (JNum (Fin 157)) (JNum (Fin 149))
        (JNum (Fin 1000000)),
      point ''2024-01-02'' (JNum (Fin 156)) JNull (JNum (Fin 159)) (JNum (Fin 154))
        (JNum (Fin 1100000))]"

definition closeless_frame :: dataframe where
  "closeless_frame =
     \<lparr>df_index = DatetimeIndex [Timestamp 1704067200000000000, Timestamp 1704153600000000000],
      df_columns =
        [(Name ''Open'', Numbers [Fin 150, Fin 156]),
         (Name ''Close'', Numbers [NaN, NaN]),
         (Name ''High'', Numbers [Fin 157, Fin 159]),
         (Name ''Low'', Numbers [Fin 149, Fin 154]),
         (Name ''Volume'', Numbers [Fin 1000000, Fin 1100000])]\<rparr>"

section \<open>Evaluation\<close>

text \<open>The definitions that the examples unfold.\<close>

lemmas eval_defs =
  fetch_stock_data_def try_body_def except_clauses_def raise_for_status_def api_url_of_def
  convert_def DataFrame_def from_records_def select_def check_symbol_def upper_def upper_char_def column_mapping_def
  required_cols_def numeric_cols_def coerce_column_def getitem_def setitem_def to_datetime_def
  to_numeric_def set_index_def rename_def rename_label_def labels_def any_null_def
  first_seen_def empty_frame_def
  pd0_def iso_date_def natural_def digit_def is_leap_def days_in_month_def days_from_civil_def
  decimal_def point_def payload_def answers_def sample_data_def
  source_keys_def column_of_def unordered_data_def corrupt_data_def undated_data_def
  partial_data_def headless_data_def nrows_def empty_def series_def
  sample_frame_def rise_data_def rise_frame_def closeless_data_def closeless_frame_def

section \<open>The fetcher fails soft\<close>

lemma except_clauses_empty: "snd (except_clauses e) = Inr empty_frame"
  by (simp add: except_clauses_def)

lemma fetch_result:
  "snd (fetch_stock_data pd requests_get symbol start_date end_date api_base_url) =
     (case snd (try_body pd requests_get symbol (api_url_of api_base_url symbol start_date end_date)) of
        Inl e \<Rightarrow> Inr empty_frame
      | Inr df \<Rightarrow> Inr df)"
proof -
  obtain printed r where tb:
    "try_body pd requests_get symbol (api_url_of api_base_url symbol start_date end_date) = (printed, r)"
    by (cases "try_body pd requests_get symbol (api_url_of api_base_url symbol start_date end_date)")
  show ?thesis
  proof (cases r)
    case (Inl e)
    obtain p' r' where ec: "except_clauses e = (p', r')" by (cases "except_clauses e")
    with except_clauses_empty [of e] have "r' = Inr empty_frame" by simp
    with tb Inl ec show ?thesis by (simp add: fetch_stock_data_def)
  next
    case (Inr df)
    with tb show ?thesis by (simp add: fetch_stock_data_def)
  qed
qed

lemma labels_rename: "labels (rename m df) = map (rename_label m) (labels df)"
  by (simp add: labels_def rename_def case_prod_unfold comp_def)

lemma rename_label_Pos: "rename_label m (Pos n) = Pos n"
  by (simp add: rename_label_def)

lemma positional_labels_no_name:
  "Name k \<notin> set (labels (rename m \<lparr>df_index = ix, df_columns = zip (map Pos [0..<n]) cols\<rparr>))"
proof
  assume "Name k \<in> set (labels (rename m \<lparr>df_index = ix, df_columns = zip (map Pos [0..<n]) cols\<rparr>))"
  then obtain l c where lc: "(l, c) \<in> set (zip (map Pos [0..<n]) cols)" and k: "Name k = rename_label m l"
    unfolding labels_rename by (auto simp: labels_def)
  from lc have "l \<in> set (map Pos [0..<n])" by (rule set_zip_leftD)
  then obtain i where "l = Pos i" by auto
  with k show False by (simp add: rename_label_Pos)
qed

lemma convert_not_records:
  assumes "data \<noteq> []" and "\<not> list_all is_record data"
  shows "case snd (convert pd data) of Inl e \<Rightarrow> True | Inr df \<Rightarrow> df = empty_frame"
proof (cases "is_record (hd data)")
  case True
  with assms have "DataFrame pd data = Inl AttributeError" by (simp add: DataFrame_def)
  then show ?thesis by (simp add: convert_def)
next
  case False
  show ?thesis
  proof (cases "array_columns pd data")
    case (Inl e)
    with False assms have "DataFrame pd data = Inl e" by (simp add: DataFrame_def)
    then show ?thesis by (simp add: convert_def)
  next
    case (Inr cols)
    with False assms have df: "DataFrame pd data =
       Inr \<lparr>df_index = RangeIndex (length data), df_columns = zip (map Pos [0..<length cols]) cols\<rparr>"
      by (simp add: DataFrame_def)
    have "Name ''Date'' \<notin> set (labels (rename column_mapping
        \<lparr>df_index = RangeIndex (length data), df_columns = zip (map Pos [0..<length cols]) cols\<rparr>))"
      by (rule positional_labels_no_name)
    then show ?thesis using df by (simp add: convert_def required_cols_def Let_def)
  qed
qed

lemma process_wrong_shape:
  assumes "\<not> is_record j \<or> dict_get j ''symbol'' = None \<or> (\<forall>data. dict_get j ''data'' \<noteq> Some (JArr data))"
  shows "snd (process pd symbol j) = Inr empty_frame"
proof (cases j)
  case (JObj kvs)
  with assms show ?thesis
    by (auto split: option.splits json.splits)
qed simp_all

lemma process_not_records:
  assumes "dict_get j ''data'' = Some (JArr data)" and "\<not> list_all is_record data"
  shows "case snd (process pd symbol j) of Inl e \<Rightarrow> True | Inr df \<Rightarrow> df = empty_frame"
proof (cases j)
  case (JObj kvs)
  from assms(2) have ne: "data \<noteq> []" by auto
  obtain printed r where c: "convert pd data = (printed, r)" by (cases "convert pd data")
  with convert_not_records [OF ne assms(2), of pd]
  have r: "case r of Inl e \<Rightarrow> True | Inr df \<Rightarrow> df = empty_frame" by simp
  from JObj assms(1) have d: "map_of kvs ''data'' = Some (JArr data)" by simp
  show ?thesis
    using JObj d ne c r by (auto split: option.splits sum.splits)
next
qed (use assms in simp_all)

lemma try_body_failure:
  assumes "(\<exists>e. requests_get url = Inl e)
     \<or> (\<exists>r. requests_get url = Inr r
           \<and> ((400 \<le> status_code r \<and> status_code r < 600)
                \<or> (\<exists>e. json_result r = Inl e)
                \<or> (\<exists>j. json_result r = Inr j
                       \<and> (\<not> is_record j \<or> dict_get j ''symbol'' = None
                            \<or> (\<forall>data. dict_get j ''data'' \<noteq> Some (JArr data))))
                \<or> (\<exists>j data. json_result r = Inr j \<and> dict_get j ''data'' = Some (JArr data)
                       \<and> \<not> list_all is_record data)))"
  shows "case snd (try_body pd requests_get symbol url) of
           Inl e \<Rightarrow> True | Inr df \<Rightarrow> df = empty_frame"
proof (cases "requests_get url")
  case (Inl e)
  then show ?thesis by (simp add: try_body_def)
next
  case (Inr r)
  show ?thesis
  proof (cases "400 \<le> status_code r \<and> status_code r < 600")
    case True
    with Inr show ?thesis by (simp add: try_body_def raise_for_status_def)
  next
    case False
    then have ok: "raise_for_status r = Inr ()" by (simp add: raise_for_status_def)
    show ?thesis
    proof (cases "json_result r")
      case (Inl e)
      with Inr ok show ?thesis by (simp add: try_body_def)
    next
      case j: (Inr j)
      from assms Inr False j consider
          "\<not> is_record j \<or> dict_get j ''symbol'' = None
             \<or> (\<forall>data. dict_get j ''data'' \<noteq> Some (JArr data))"
        | data where "dict_get j ''data'' = Some (JArr data)" "\<not> list_all is_record data"
        by auto
      then have "case snd (process pd symbol j) of Inl e \<Rightarrow> True | Inr df \<Rightarrow> df = empty_frame"
      proof cases
        case 1
        then show ?thesis by (simp add: process_wrong_shape)
      next
        case 2
        then show ?thesis by (rule process_not_records)
      qed
      with Inr ok j show ?thesis by (simp add: try_body_def)
    qed
  qed
qed

text \<open>
  Claim C1. Whatever the inputs and whatever the remote source does, no exception leaves
  \<^verbatim>\<open>fetch_stock_data\<close>: it returns a frame. The frame is the empty one when the
  request raises (no route, timeout), when the status is one that
  \<^verbatim>\<open>raise_for_status\<close> rejects (4xx or 5xx), when the body does not decode, when
  the document has the wrong shape (not an object, no \<^verbatim>\<open>symbol\<close>, no \<^verbatim>\<open>data\<close>,
  \<^verbatim>\<open>data\<close> not a sequence, or a sequence holding something else than records), and
  whenever anything raises inside the \<^verbatim>\<open>try\<close> block.
\<close>

theorem fetch_stock_data_fail_soft:
  "(\<exists>df. snd (fetch_stock_data pd requests_get symbol start_date end_date api_base_url) = Inr df)
   \<and> ((\<exists>e. requests_get (api_url_of api_base_url symbol start_date end_date) = Inl e)
        \<or> (\<exists>r. requests_get (api_url_of api_base_url symbol start_date end_date) = Inr r
              \<and> ((400 \<le> status_code r \<and> status_code r < 600)
                   \<or> (\<exists>e. json_result r = Inl e)
                   \<or> (\<exists>j. json_result r = Inr j
                          \<and> (\<not> is_record j \<or> dict_get j ''symbol'' = None
                               \<or> (\<forall>data. dict_get j ''data'' \<noteq> Some (JArr data))))
                   \<or> (\<exists>j data. json_result r = Inr j
                          \<and> dict_get j ''data'' = Some (JArr data)
                          \<and> \<not> list_all is_record data)))
        \<or> (\<exists>e. snd (try_body pd requests_get symbol
                       (api_url_of api_base_url symbol start_date end_date)) = Inl e)
      \<longrightarrow> snd (fetch_stock_data pd requests_get symbol start_date end_date api_base_url)
            = Inr empty_frame)"
proof (intro conjI impI)
  show "\<exists>df. snd (fetch_stock_data pd requests_get symbol start_date end_date api_base_url) = Inr df"
    unfolding fetch_result by (simp split: sum.split)
next
  let ?url = "api_url_of api_base_url symbol start_date end_date"
  assume "(\<exists>e. requests_get ?url = Inl e)
        \<or> (\<exists>r. requests_get ?url = Inr r
              \<and> ((400 \<le> status_code r \<and> status_code r < 600)
                   \<or> (\<exists>e. json_result r = Inl e)
                   \<or> (\<exists>j. json_result r = Inr j
                          \<and> (\<not> is_record j \<or> dict_get j ''symbol'' = None
                               \<or> (\<forall>data. dict_get j ''data'' \<noteq> Some (JArr data))))
                   \<or> (\<exists>j data. json_result r = Inr j
                          \<and> dict_get j ''data'' = Some (JArr data)
                          \<and> \<not> list_all is_record data)))
        \<or> (\<exists>e. snd (try_body pd requests_get symbol ?url) = Inl e)"
  then have "case snd (try_body pd requests_get symbol ?url) of
               Inl e \<Rightarrow> True | Inr df \<Rightarrow> df = empty_frame"
  proof (elim disjE)
    assume "\<exists>e. snd (try_body pd requests_get symbol ?url) = Inl e"
    then show ?thesis by auto
  qed (rule try_body_failure, blast)+
  then show "snd (fetch_stock_data pd requests_get symbol start_date end_date api_base_url)
      = Inr empty_frame"
    unfolding fetch_result by (simp split: sum.splits)
qed

theorem fetch_stock_data_fail_soft_witness:
  "snd (fetch_stock_data pd0 (\<lambda>url. Inl Timeout) ''TEST'' ''2024-01-01'' ''2024-01-02''
          ''http://mockapi.com'') = Inr empty_frame
   \<and> snd (fetch_stock_data pd0 (answers 404 (Inr (payload (JStr ''TEST'') sample_data)))
          ''TEST'' ''2024-01-01'' ''2024-01-02'' ''http://mockapi.com'') = Inr empty_frame
   \<and> snd (fetch_stock_data pd0 (answers 200 (Inl RequestsJSONDecodeError))
          ''TEST'' ''2024-01-01'' ''2024-01-02'' ''http://mockapi.com'') = Inr empty_frame
   \<and> snd (fetch_stock_data pd0
          (answers 200 (Inr (JObj [(''symbol'', JStr ''TEST''), (''records'', JArr [])])))
          ''TEST'' ''2024-01-01'' ''2024-01-02'' ''http://mockapi.com'') = Inr empty_frame
   \<and> snd (fetch_stock_data pd0
          (answers 200 (Inr (payload (JStr ''TEST'') [JStr ''not a record''])))
          ''TEST'' ''2024-01-01'' ''2024-01-02'' ''http://mockapi.com'') = Inr empty_frame
   \<and> snd (try_body pd0
          (answers 200 (Inr (payload (JStr ''TEST'')
             [point ''not-a-date'' (JNum (Fin 1)) (JNum (Fin 1)) (JNum (Fin 1)) (JNum (Fin 1))
                (JNum (Fin 1))])))
          ''TEST'' (api_url_of ''http://mockapi.com'' ''TEST'' ''2024-01-01'' ''2024-01-02''))
       = Inl ValueError
   \<and> snd (fetch_stock_data pd0
          (answers 200 (Inr (payload (JStr ''TEST'')
             [point ''not-a-date'' (JNum (Fin 1)) (JNum (Fin 1)) (JNum (Fin 1)) (JNum (Fin 1))
                (JNum (Fin 1))])))
          ''TEST'' ''2024-01-01'' ''2024-01-02'' ''http://mockapi.com'') = Inr empty_frame"
proof -
  have tb: "snd (try_body pd0
          (answers 200 (Inr (payload (JStr ''TEST'')
             [point ''not-a-date'' (JNum (Fin 1)) (JNum (Fin 1)) (JNum (Fin 1)) (JNum (Fin 1))
                (JNum (Fin 1))])))
          ''TEST'' (api_url_of ''http://mockapi.com'' ''TEST'' ''2024-01-01'' ''2024-01-02''))
       = Inl ValueError"
    by (simp add: eval_defs)
  show ?thesis
    using
      fetch_stock_data_fail_soft [of pd0 "\<lambda>url. Inl Timeout" "''TEST''" "''2024-01-01''"
        "''2024-01-02''" "''http://mockapi.com''"]
      fetch_stock_data_fail_soft [of pd0 "answers 404 (Inr (payload (JStr ''TEST'') sample_data))"
        "''TEST''" "''2024-01-01''" "''2024-01-02''" "''http://mockapi.com''"]
      fetch_stock_data_fail_soft [of pd0 "answers 200 (Inl RequestsJSONDecodeError)"
        "''TEST''" "''2024-01-01''" "''2024-01-02''" "''http://mockapi.com''"]
      fetch_stock_data_fail_soft [of pd0
        "answers 200 (Inr (JObj [(''symbol'', JStr ''TEST''), (''records'', JArr [])]))"
        "''TEST''" "''2024-01-01''" "''2024-01-02''" "''http://mockapi.com''"]
      fetch_stock_data_fail_soft [of pd0
        "answers 200 (Inr (payload (JStr ''TEST'') [JStr ''not a record'']))"
        "''TEST''" "''2024-01-01''" "''2024-01-02''" "''http://mockapi.com''"]
      fetch_stock_data_fail_soft [of pd0
        "answers 200 (Inr (payload (JStr ''TEST'')
             [point ''not-a-date'' (JNum (Fin 1)) (JNum (Fin 1)) (JNum (Fin 1)) (JNum (Fin 1))
                (JNum (Fin 1))]))"
        "''TEST''" "''2024-01-01''" "''2024-01-02''" "''http://mockapi.com''"]
      tb
    by (simp add: answers_def payload_def)
qed

section \<open>The symbol of the document\<close>

lemma fetch_printed:
  "fst (fetch_stock_data pd requests_get symbol start_date end_date api_base_url) =
     Attempting (api_url_of api_base_url symbol start_date end_date)
       # fst (try_body pd requests_get symbol (api_url_of api_base_url symbol start_date end_date))
       @ (case snd (try_body pd requests_get symbol
                      (api_url_of api_base_url symbol start_date end_date)) of
            Inl e \<Rightarrow> fst (except_clauses e)
          | Inr df \<Rightarrow> [])"
proof -
  obtain printed r where tb:
    "try_body pd requests_get symbol (api_url_of api_base_url symbol start_date end_date) = (printed, r)"
    by (cases "try_body pd requests_get symbol (api_url_of api_base_url symbol start_date end_date)")
  show ?thesis
  proof (cases r)
    case (Inl e)
    obtain p' r' where "except_clauses e = (p', r')" by (cases "except_clauses e")
    with tb Inl show ?thesis by (simp add: fetch_stock_data_def)
  next
    case (Inr df)
    with tb show ?thesis by (simp add: fetch_stock_data_def)
  qed
qed

lemma process_string_symbol:
  assumes "map_of kvs ''symbol'' = Some (JStr s)" and "map_of kvs ''data'' = Some (JArr data)"
  shows "process pd symbol (JObj kvs) =
           ((if upper s \<noteq> upper symbol then [SymbolWarning s] else [])
              @ fst (if data = [] then ([NoDataPointsMsg], Inr empty_frame) else convert pd data),
            snd (if data = [] then ([NoDataPointsMsg], Inr empty_frame) else convert pd data))"
  using assms by (simp add: check_symbol_def split: prod.splits)

lemma process_no_sequence:
  assumes "\<forall>data. map_of kvs ''data'' \<noteq> Some (JArr data)"
  shows "process pd symbol (JObj kvs) = ([InvalidFormatMsg], Inr empty_frame)"
  using assms by (auto split: option.splits json.splits)

lemma try_body_decoded:
  assumes "requests_get url = Inr r" and "\<not> (400 \<le> status_code r \<and> status_code r < 600)"
    and "json_result r = Inr j"
  shows "try_body pd requests_get symbol url = process pd symbol j"
  using assms by (auto simp: try_body_def raise_for_status_def)

lemma try_body_rejected:
  assumes "requests_get url = Inr r" and "400 \<le> status_code r \<and> status_code r < 600"
  shows "try_body pd requests_get symbol url = ([], Inl HTTPError)"
  using assms by (simp add: try_body_def raise_for_status_def)

text \<open>
  Claim C10. The structural gate only asks for the keys. When the decoded document is an
  object with the keys \<^verbatim>\<open>symbol\<close> and \<^verbatim>\<open>data\<close>, \<^verbatim>\<open>data\<close> a sequence, and the
  value of \<^verbatim>\<open>symbol\<close> is not a string, the comparison of line 47 raises
  \<^verbatim>\<open>AttributeError\<close>, the last handler catches it, and the empty frame is returned:
  nothing is printed but the request line and the handler's message.
\<close>

theorem symbol_not_a_string_absorbed:
  assumes "requests_get (api_url_of api_base_url symbol start_date end_date) = Inr r"
    and "\<not> (400 \<le> status_code r \<and> status_code r < 600)"
    and "json_result r = Inr (JObj kvs)"
    and "map_of kvs ''symbol'' = Some v"
    and "\<forall>s. v \<noteq> JStr s"
    and "map_of kvs ''data'' = Some (JArr data)"
  shows "fetch_stock_data pd requests_get symbol start_date end_date api_base_url =
           ([Attempting (api_url_of api_base_url symbol start_date end_date),
             UnexpectedErrorMsg AttributeError],
            Inr empty_frame)"
proof -
  from assms(5) have "check_symbol symbol v = Inl AttributeError"
    by (cases v) (simp_all add: check_symbol_def)
  with assms(4,6) have "process pd symbol (JObj kvs) = ([], Inl AttributeError)"
    by simp
  with assms(1,2,3) have
    "try_body pd requests_get symbol (api_url_of api_base_url symbol start_date end_date)
       = ([], Inl AttributeError)"
    by (simp add: try_body_def raise_for_status_def)
  then show ?thesis
    by (simp add: fetch_stock_data_def except_clauses_def)
qed

theorem symbol_not_a_string_absorbed_witness:
  "fetch_stock_data pd0 (answers 200 (Inr (payload (JNum (Fin 42)) sample_data)))
      ''TEST'' ''2024-01-01'' ''2024-01-02'' ''http://mockapi.com'' =
     ([Attempting ''http://mockapi.com/data/stock/TEST?from=2024-01-01&to=2024-01-02'',
       UnexpectedErrorMsg AttributeError],
      Inr empty_frame)
   \<and> fetch_stock_data pd0 (answers 200 (Inr (payload JNull sample_data)))
      ''TEST'' ''2024-01-01'' ''2024-01-02'' ''http://mockapi.com'' =
     ([Attempting ''http://mockapi.com/data/stock/TEST?from=2024-01-01&to=2024-01-02'',
       UnexpectedErrorMsg AttributeError],
      Inr empty_frame)"
  using
    symbol_not_a_string_absorbed [of "answers 200 (Inr (payload (JNum (Fin 42)) sample_data))"
      "''http://mockapi.com''" "''TEST''" "''2024-01-01''" "''2024-01-02''"
      "\<lparr>status_code = 200, json_result = Inr (payload (JNum (Fin 42)) sample_data)\<rparr>"
      "[(''symbol'', JNum (Fin 42)), (''data'', JArr sample_data)]" "JNum (Fin 42)" sample_data pd0]
    symbol_not_a_string_absorbed [of "answers 200 (Inr (payload JNull sample_data))"
      "''http://mockapi.com''" "''TEST''" "''2024-01-01''" "''2024-01-02''"
      "\<lparr>status_code = 200, json_result = Inr (payload JNull sample_data)\<rparr>"
      "[(''symbol'', JNull), (''data'', JArr sample_data)]" JNull sample_data pd0]
  by (simp add: answers_def payload_def api_url_of_def)

text \<open>
  Claim C9. Two remote sources that answer with the same status and with documents that
  differ only in the value of \<^verbatim>\<open>symbol\<close>, a string in both, give the same frame.
  When the documents pass the structural gate, what is printed differs only in the
  warning of line 48, which is printed exactly for a value that disagrees with the
  requested symbol after upper-casing.
\<close>

theorem symbol_value_only_warns:
  assumes g1: "requests_get1 (api_url_of api_base_url symbol start_date end_date) = Inr r1"
    and g2: "requests_get2 (api_url_of api_base_url symbol start_date end_date) = Inr r2"
    and status: "status_code r1 = status_code r2"
    and j1: "json_result r1 = Inr (JObj kvs1)"
    and j2: "json_result r2 = Inr (JObj kvs2)"
    and s1: "map_of kvs1 ''symbol'' = Some (JStr s1)"
    and s2: "map_of kvs2 ''symbol'' = Some (JStr s2)"
    and same: "\<forall>k. k \<noteq> ''symbol'' \<longrightarrow> map_of kvs1 k = map_of kvs2 k"
  shows "snd (fetch_stock_data pd requests_get1 symbol start_date end_date api_base_url)
           = snd (fetch_stock_data pd requests_get2 symbol start_date end_date api_base_url)
         \<and> (\<not> (400 \<le> status_code r1 \<and> status_code r1 < 600)
              \<and> (\<exists>data. map_of kvs1 ''data'' = Some (JArr data))
            \<longrightarrow> (\<exists>rest.
                  fst (fetch_stock_data pd requests_get1 symbol start_date end_date api_base_url)
                    = Attempting (api_url_of api_base_url symbol start_date end_date)
                        # (if upper s1 \<noteq> upper symbol then [SymbolWarning s1] else []) @ rest
                  \<and> fst (fetch_stock_data pd requests_get2 symbol start_date end_date api_base_url)
                    = Attempting (api_url_of api_base_url symbol start_date end_date)
                        # (if upper s2 \<noteq> upper symbol then [SymbolWarning s2] else []) @ rest))"
proof -
  let ?url = "api_url_of api_base_url symbol start_date end_date"
  let ?t1 = "try_body pd requests_get1 symbol ?url"
  let ?t2 = "try_body pd requests_get2 symbol ?url"
  from same have d: "map_of kvs1 ''data'' = map_of kvs2 ''data''" by simp
  show ?thesis
  proof (cases "400 \<le> status_code r1 \<and> status_code r1 < 600")
    case True
    with g1 g2 status have "?t1 = ([], Inl HTTPError)" "?t2 = ([], Inl HTTPError)"
      by (simp_all add: try_body_rejected)
    with True show ?thesis by (simp add: fetch_result)
  next
    case ok: False
    with g1 g2 status j1 j2 have t: "?t1 = process pd symbol (JObj kvs1)"
        "?t2 = process pd symbol (JObj kvs2)"
      by (simp_all add: try_body_decoded)
    show ?thesis
    proof (cases "\<exists>data. map_of kvs1 ''data'' = Some (JArr data)")
      case False
      with d have n: "\<forall>data. map_of kvs1 ''data'' \<noteq> Some (JArr data)"
          "\<forall>data. map_of kvs2 ''data'' \<noteq> Some (JArr data)"
        by simp_all
      have "?t1 = ([InvalidFormatMsg], Inr empty_frame)"
        unfolding t by (rule process_no_sequence [OF n(1)])
      moreover have "?t2 = ([InvalidFormatMsg], Inr empty_frame)"
        unfolding t by (rule process_no_sequence [OF n(2)])
      ultimately show ?thesis using False by (simp add: fetch_result)
    next
      case True
      then obtain data where data: "map_of kvs1 ''data'' = Some (JArr data)" by blast
      with d have data2: "map_of kvs2 ''data'' = Some (JArr data)" by simp
      let ?b = "if data = [] then ([NoDataPointsMsg], Inr empty_frame) else convert pd data"
      have p1: "?t1 = ((if upper s1 \<noteq> upper symbol then [SymbolWarning s1] else []) @ fst ?b, snd ?b)"
        unfolding t by (rule process_string_symbol [OF s1 data])
      have p2: "?t2 = ((if upper s2 \<noteq> upper symbol then [SymbolWarning s2] else []) @ fst ?b, snd ?b)"
        unfolding t by (rule process_string_symbol [OF s2 data2])
      have res: "snd (fetch_stock_data pd requests_get1 symbol start_date end_date api_base_url)
           = snd (fetch_stock_data pd requests_get2 symbol start_date end_date api_base_url)"
        by (simp add: fetch_result p1 p2)
      let ?rest = "fst ?b @ (case snd ?b of Inl e \<Rightarrow> fst (except_clauses e) | Inr df \<Rightarrow> [])"
      have "fst (fetch_stock_data pd requests_get1 symbol start_date end_date api_base_url)
              = Attempting ?url # (if upper s1 \<noteq> upper symbol then [SymbolWarning s1] else []) @ ?rest"
        by (simp add: fetch_printed p1)
      moreover have "fst (fetch_stock_data pd requests_get2 symbol start_date end_date api_base_url)
              = Attempting ?url # (if upper s2 \<noteq> upper symbol then [SymbolWarning s2] else []) @ ?rest"
        by (simp add: fetch_printed p2)
      ultimately show ?thesis using res by blast
    qed
  qed
qed

theorem symbol_value_only_warns_witness:
  "snd (fetch_stock_data pd0 (answers 200 (Inr (payload (JStr ''TEST'') sample_data)))
          ''TEST'' ''2024-01-01'' ''2024-01-02'' ''http://mockapi.com'')
     = snd (fetch_stock_data pd0 (answers 200 (Inr (payload (JStr ''other'') sample_data)))
          ''TEST'' ''2024-01-01'' ''2024-01-02'' ''http://mockapi.com'')
   \<and> (\<exists>rest.
         fst (fetch_stock_data pd0 (answers 200 (Inr (payload (JStr ''TEST'') sample_data)))
            ''TEST'' ''2024-01-01'' ''2024-01-02'' ''http://mockapi.com'')
           = Attempting ''http://mockapi.com/data/stock/TEST?from=2024-01-01&to=2024-01-02''
               # rest
         \<and> fst (fetch_stock_data pd0 (answers 200 (Inr (payload (JStr ''other'') sample_data)))
            ''TEST'' ''2024-01-01'' ''2024-01-02'' ''http://mockapi.com'')
           = Attempting ''http://mockapi.com/data/stock/TEST?from=2024-01-01&to=2024-01-02''
               # SymbolWarning ''other'' # rest)
   \<and> snd (fetch_stock_data pd0 (answers 200 (Inr (payload (JStr ''other'') sample_data)))
          ''TEST'' ''2024-01-01'' ''2024-01-02'' ''http://mockapi.com'')
     = Inr \<lparr>df_index =
               DatetimeIndex [Timestamp 1704067200000000000, Timestamp 1704153600000000000],
             df_columns =
               [(Name ''Open'', Numbers [Fin 150, Fin 156]),
                (Name ''Close'', Numbers [Fin 155, Fin 158]),
                (Name ''High'', Numbers [Fin 157, Fin 159]),
                (Name ''Low'', Numbers [Fin 149, Fin 154]),
                (Name ''Volume'', Numbers [Fin 1000000, Fin 1100000])]\<rparr>"
proof -
  have frame: "snd (fetch_stock_data pd0 (answers 200 (Inr (payload (JStr ''other'') sample_data)))
          ''TEST'' ''2024-01-01'' ''2024-01-02'' ''http://mockapi.com'')
     = Inr \<lparr>df_index =
               DatetimeIndex [Timestamp 1704067200000000000, Timestamp 1704153600000000000],
             df_columns =
               [(Name ''Open'', Numbers [Fin 150, Fin 156]),
                (Name ''Close'', Numbers [Fin 155, Fin 158]),
                (Name ''High'', Numbers [Fin 157, Fin 159]),
                (Name ''Low'', Numbers [Fin 149, Fin 154]),
                (Name ''Volume'', Numbers [Fin 1000000, Fin 1100000])]\<rparr>"
    by (simp add: eval_defs)
  have up: "upper ''TEST'' = ''TEST''" "upper ''other'' = ''OTHER''"
    by (simp_all add: upper_def upper_char_def)
  show ?thesis
    using
      symbol_value_only_warns [of "answers 200 (Inr (payload (JStr ''TEST'') sample_data))"
        "''http://mockapi.com''" "''TEST''" "''2024-01-01''" "''2024-01-02''"
        "\<lparr>status_code = 200, json_result = Inr (payload (JStr ''TEST'') sample_data)\<rparr>"
        "answers 200 (Inr (payload (JStr ''other'') sample_data))"
        "\<lparr>status_code = 200, json_result = Inr (payload (JStr ''other'') sample_data)\<rparr>"
        "[(''symbol'', JStr ''TEST''), (''data'', JArr sample_data)]"
        "[(''symbol'', JStr ''other''), (''data'', JArr sample_data)]"
        "''TEST''" "''other''" pd0]
      frame
    by (simp add: answers_def payload_def api_url_of_def up)
qed

section \<open>What the conversion returns\<close>

lemma in_labels_select: "l \<in> set (labels df) \<longleftrightarrow> select df l \<noteq> []"
  by (force simp: labels_def select_def filter_empty_conv)

lemma select_rename_records:
  "select (rename column_mapping (from_records data)) l =
     map (\<lambda>k. Objects (column_of data k)) (source_keys data l)"
  by (simp add: select_def rename_def from_records_def source_keys_def column_of_def
      filter_map comp_def)

lemma df_index_rename [simp]: "df_index (rename m df) = df_index df"
  by (simp add: rename_def)

lemma select_set_index:
  "select (set_index df col dates) l = (if l = Name col then [] else select df l)"
proof -
  have "filter (\<lambda>(l', c). l' = l) (filter (\<lambda>(l', c). l' \<noteq> Name col) cols) =
        (if l = Name col then [] else filter (\<lambda>(l', c). l' = l) cols)" for cols :: "(label \<times> column) list"
    by (induction cols) auto
  then show ?thesis by (simp add: select_def set_index_def)
qed

lemma to_numeric_series_idem [simp]:
  "to_numeric_series pd (to_numeric_series pd s) = to_numeric_series pd s"
  by (cases s) simp_all

lemma select_replace:
  "map snd (filter (\<lambda>(l', c). l' = l)
      (map (\<lambda>(l', x). if l' = l0 then (l', s) else (l', x)) cols)) =
   (if l = l0 then map (\<lambda>_. s) (map snd (filter (\<lambda>(l', c). l' = l) cols))
    else map snd (filter (\<lambda>(l', c). l' = l) cols))"
  by (induction cols) auto

lemma coerce_column_Inr:
  assumes "coerce_column pd df c = Inr df'"
  shows "df_index df' = df_index df"
    and "select df' l = (if l = Name c then map (to_numeric_series pd) (select df l) else select df l)"
    and "length (select df (Name c)) = 1"
proof -
  from assms obtain s where s: "select df (Name c) = [s]"
    by (auto simp: coerce_column_def getitem_def to_numeric_def Let_def
        split: if_splits list.splits sum.splits)
  then have "Name c \<in> set (labels df)" by (simp add: in_labels_select)
  with s assms have df': "df' = df\<lparr>df_columns :=
      map (\<lambda>(l, x). if l = Name c then (l, to_numeric_series pd s) else (l, x)) (df_columns df)\<rparr>"
    by (simp add: coerce_column_def getitem_def to_numeric_def setitem_def)
  show "df_index df' = df_index df" by (simp add: df')
  show "length (select df (Name c)) = 1" by (simp add: s)
  show "select df' l = (if l = Name c then map (to_numeric_series pd) (select df l) else select df l)"
    using s by (simp add: df' select_def select_replace)
qed

lemma coerce_column_succeeds:
  assumes "length (select df (Name c)) = 1"
  shows "\<exists>df'. coerce_column pd df c = Inr df'"
proof -
  from assms obtain s where "select df (Name c) = [s]"
    by (cases "select df (Name c)") auto
  then show ?thesis
    by (simp add: coerce_column_def getitem_def to_numeric_def)
qed

lemma coerce_columns_Inr:
  assumes "coerce_columns pd cs df = Inr df'"
  shows "df_index df' = df_index df
    \<and> (\<forall>l. select df' l =
          (if l \<in> Name ` set cs then map (to_numeric_series pd) (select df l) else select df l))
    \<and> (\<forall>c \<in> set cs. length (select df (Name c)) = 1)"
  using assms
proof (induction cs arbitrary: df)
  case Nil
  then show ?case by simp
next
  case (Cons c cs)
  from Cons.prems obtain df1 where c: "coerce_column pd df c = Inr df1"
    and cs: "coerce_columns pd cs df1 = Inr df'"
    by (auto split: sum.splits)
  note one = coerce_column_Inr [OF c]
  note rest = Cons.IH [OF cs]
  have len: "length (select df1 l) = length (select df l)" for l
    by (simp add: one(2))
  show ?case
  proof (intro conjI allI ballI)
    show "df_index df' = df_index df" using rest one(1) by simp
  next
    fix l
    show "select df' l =
        (if l \<in> Name ` set (c # cs) then map (to_numeric_series pd) (select df l) else select df l)"
      using rest one(2) by (auto simp: comp_def)
  next
    fix c' assume "c' \<in> set (c # cs)"
    then show "length (select df (Name c')) = 1"
      using rest one(3) len by auto
  qed
qed

lemma coerce_columns_succeeds:
  assumes "\<forall>c \<in> set cs. length (select df (Name c)) = 1"
  shows "\<exists>df'. coerce_columns pd cs df = Inr df'"
  using assms
proof (induction cs arbitrary: df)
  case Nil
  then show ?case by simp
next
  case (Cons c cs)
  then obtain df1 where c: "coerce_column pd df c = Inr df1"
    using coerce_column_succeeds [of df c pd] by auto
  have "length (select df1 l) = length (select df l)" for l
    by (simp add: coerce_column_Inr(2) [OF c])
  with Cons.prems have "\<forall>c \<in> set cs. length (select df1 (Name c)) = 1" by simp
  from Cons.IH [OF this] c show ?case by simp
qed

lemma DataFrame_records:
  assumes "data \<noteq> []" and "list_all is_record data"
  shows "DataFrame pd data = Inr (from_records data)"
proof -
  from assms have "is_record (hd data)" by (cases data) simp_all
  with assms show ?thesis by (simp add: DataFrame_def)
qed

lemma gate_records:
  "list_all (\<lambda>col. Name col \<in> set (labels (rename column_mapping (from_records data)))) required_cols
     \<longleftrightarrow> (\<forall>c \<in> set required_cols. source_keys data (Name c) \<noteq> [])"
  by (simp add: list_all_iff in_labels_select select_rename_records)

lemma convert_records:
  assumes "data \<noteq> []" and "list_all is_record data"
  shows "convert pd data =
     (if \<exists>c \<in> set required_cols. source_keys data (Name c) = []
      then ([MissingColumnsMsg], Inr empty_frame)
      else
        (case to_datetime pd (select (rename column_mapping (from_records data)) (Name ''Date'')) of
           Inl e \<Rightarrow> ([], Inl e)
         | Inr dates \<Rightarrow>
             (case coerce_columns pd numeric_cols
                     (set_index (rename column_mapping (from_records data)) ''Date'' dates) of
                Inl e \<Rightarrow> ([], Inl e)
              | Inr df1 \<Rightarrow>
                  (case coerce_column pd df1 ''Volume'' of
                     Inl e \<Rightarrow> ([], Inl e)
                   | Inr df2 \<Rightarrow> (if any_null df2 then [NonNumericWarning] else [], Inr df2)))))"
proof (cases "\<exists>c \<in> set required_cols. source_keys data (Name c) = []")
  case True
  then have "\<not> list_all (\<lambda>col. Name col \<in> set (labels (rename column_mapping (from_records data))))
      required_cols"
    by (simp add: gate_records)
  with True show ?thesis
    by (simp add: convert_def DataFrame_records [OF assms])
next
  case False
  then have gate: "list_all (\<lambda>col. Name col \<in> set (labels (rename column_mapping (from_records data))))
      required_cols"
    by (simp add: gate_records)
  from False have "source_keys data (Name ''Date'') \<noteq> []"
    by (simp add: required_cols_def)
  then have "select (rename column_mapping (from_records data)) (Name ''Date'') \<noteq> []"
    by (simp add: select_rename_records)
  then have get: "getitem (rename column_mapping (from_records data)) ''Date'' =
      Inr (select (rename column_mapping (from_records data)) (Name ''Date''))"
    by (simp add: getitem_def)
  show ?thesis
    using False gate get by (simp add: convert_def DataFrame_records [OF assms] Let_def)
qed

lemma convert_empty_data: "convert pd [] = ([MissingColumnsMsg], Inr empty_frame)"
  by (simp add: convert_def DataFrame_def rename_def empty_frame_def labels_def required_cols_def)

lemma to_datetime_records:
  "to_datetime pd (select (rename column_mapping (from_records data)) (Name ''Date'')) = Inr ts
     \<longleftrightarrow> (\<exists>k. source_keys data (Name ''Date'') = [k]
              \<and> to_datetime_cells pd (column_of data k) = Inr ts)"
proof (cases "source_keys data (Name ''Date'')")
  case Nil
  then show ?thesis by (simp add: to_datetime_def select_rename_records)
next
  case (Cons k ks)
  then show ?thesis
    by (cases ks) (simp_all add: to_datetime_def select_rename_records)
qed

lemma to_datetime_cells_length:
  "to_datetime_cells pd vs = Inr ts \<Longrightarrow> length ts = length vs"
  by (induction vs arbitrary: ts) (auto split: sum.splits)

text \<open>The frame that the conversion returns, read off the records.\<close>

lemma convert_Inr:
  assumes conv: "convert pd data = (printed, Inr df)" and ne: "df \<noteq> empty_frame"
  shows "data \<noteq> [] \<and> list_all is_record data"
    and "\<exists>k ts. source_keys data (Name ''Date'') = [k]
           \<and> to_datetime_cells pd (column_of data k) = Inr ts
           \<and> df_index df = DatetimeIndex ts"
    and "\<forall>c \<in> set numeric_cols \<union> {''Volume''}. \<exists>k. source_keys data (Name c) = [k]
           \<and> select df (Name c) = [Numbers (map (to_numeric_cell pd) (column_of data k))]"
    and "printed = (if any_null df then [NonNumericWarning] else [])"
proof -
  have d: "data \<noteq> []" using conv ne by (auto simp: convert_empty_data)
  have r: "list_all is_record data"
  proof (rule ccontr)
    assume "\<not> list_all is_record data"
    from convert_not_records [OF d this, of pd] conv ne show False by simp
  qed
  show "data \<noteq> [] \<and> list_all is_record data" using d r by simp
  let ?base = "rename column_mapping (from_records data)"
  from conv ne obtain dates df1 where
        gate: "\<forall>c \<in> set required_cols. source_keys data (Name c) \<noteq> []"
    and dt: "to_datetime pd (select ?base (Name ''Date'')) = Inr dates"
    and c1: "coerce_columns pd numeric_cols (set_index ?base ''Date'' dates) = Inr df1"
    and c2: "coerce_column pd df1 ''Volume'' = Inr df"
    and pr: "printed = (if any_null df then [NonNumericWarning] else [])"
    unfolding convert_records [OF d r]
    by (auto split: if_splits sum.splits)
  show "printed = (if any_null df then [NonNumericWarning] else [])" by (rule pr)
  note n = coerce_columns_Inr [OF c1]
  note v = coerce_column_Inr [OF c2]
  from dt obtain k where k: "source_keys data (Name ''Date'') = [k]"
      and ts: "to_datetime_cells pd (column_of data k) = Inr dates"
    by (auto simp: to_datetime_records)
  have "df_index df = DatetimeIndex dates"
    using n v(1) by (simp add: set_index_def)
  with k ts show "\<exists>k ts. source_keys data (Name ''Date'') = [k]
           \<and> to_datetime_cells pd (column_of data k) = Inr ts
           \<and> df_index df = DatetimeIndex ts"
    by blast
  show "\<forall>c \<in> set numeric_cols \<union> {''Volume''}. \<exists>k. source_keys data (Name c) = [k]
           \<and> select df (Name c) = [Numbers (map (to_numeric_cell pd) (column_of data k))]"
  proof
    fix c assume c: "c \<in> set numeric_cols \<union> {''Volume''}"
    then have nd: "Name c \<noteq> Name ''Date''" by (auto simp: numeric_cols_def)
    have sel: "select df (Name c) =
        map (to_numeric_series pd) (map (\<lambda>k. Objects (column_of data k)) (source_keys data (Name c)))"
      using c nd n v(2) [of "Name c"]
      by (auto simp: select_set_index select_rename_records numeric_cols_def)
    have "length (select df (Name c)) = 1"
      using c n v(2) [of "Name c"] v(3) by (auto simp: numeric_cols_def)
    with sel obtain k where "source_keys data (Name c) = [k]"
      by (cases "source_keys data (Name c)") auto
    with sel show "\<exists>k. source_keys data (Name c) = [k]
           \<and> select df (Name c) = [Numbers (map (to_numeric_cell pd) (column_of data k))]"
      by simp
  qed
qed

lemma convert_succeeds:
  assumes d: "data \<noteq> []" and r: "list_all is_record data"
    and one: "\<forall>c \<in> set required_cols. \<exists>k. source_keys data (Name c) = [k]"
    and k: "source_keys data (Name ''Date'') = [k]"
    and ts: "to_datetime_cells pd (column_of data k) = Inr ts"
  shows "\<exists>printed df. convert pd data = (printed, Inr df) \<and> df \<noteq> empty_frame"
proof -
  let ?base = "rename column_mapping (from_records data)"
  let ?dated = "set_index ?base ''Date'' ts"
  from one have gate: "\<not> (\<exists>c \<in> set required_cols. source_keys data (Name c) = [])"
    by auto
  have dt: "to_datetime pd (select ?base (Name ''Date'')) = Inr ts"
    using k ts by (simp add: to_datetime_records)
  have len: "length (select ?dated (Name c)) = 1" if "c \<in> set numeric_cols \<union> {''Volume''}" for c
  proof -
    from that have "c \<in> set required_cols" "Name c \<noteq> Name ''Date''"
      by (auto simp: numeric_cols_def required_cols_def)
    with one show ?thesis
      by (auto simp: select_set_index select_rename_records)
  qed
  then have "\<forall>c \<in> set numeric_cols. length (select ?dated (Name c)) = 1" by simp
  from coerce_columns_succeeds [OF this] obtain df1 where
    c1: "coerce_columns pd numeric_cols ?dated = Inr df1" by blast
  have "length (select df1 (Name ''Volume'')) = 1"
    using coerce_columns_Inr [OF c1] len [of "''Volume''"] by (auto simp: numeric_cols_def)
  from coerce_column_succeeds [OF this] obtain df2 where
    c2: "coerce_column pd df1 ''Volume'' = Inr df2" by blast
  have "df_index df2 = DatetimeIndex ts"
    using coerce_columns_Inr [OF c1] coerce_column_Inr(1) [OF c2] by (simp add: set_index_def)
  then have "df2 \<noteq> empty_frame" by (auto simp: empty_frame_def)
  moreover have "convert pd data = (if any_null df2 then [NonNumericWarning] else [], Inr df2)"
    unfolding convert_records [OF d r] using gate dt c1 c2 by simp
  ultimately show ?thesis by blast
qed

lemma select_nonempty_columns: "select df l \<noteq> [] \<Longrightarrow> df_columns df \<noteq> []"
  by (auto simp: select_def)

lemma series_select: "select df (Name c) = [s] \<Longrightarrow> series df c = Inr s"
  by (simp add: series_def getitem_def)

text \<open>A frame returned by the conversion has a row for each record and is not empty.\<close>

lemma convert_Inr_rows:
  assumes conv: "convert pd data = (printed, Inr df)" and ne: "df \<noteq> empty_frame"
  shows "nrows df = length data" and "\<not> empty df"
proof -
  from convert_Inr(2) [OF conv ne] obtain k ts where
    ts: "to_datetime_cells pd (column_of data k) = Inr ts" and ix: "df_index df = DatetimeIndex ts"
    by blast
  from to_datetime_cells_length [OF ts] ix show n: "nrows df = length data"
    by (simp add: nrows_def column_of_def)
  from convert_Inr(3) [OF conv ne] have "select df (Name ''Volume'') \<noteq> []" by auto
  then have "df_columns df \<noteq> []" by (rule select_nonempty_columns)
  with n convert_Inr(1) [OF conv ne] show "\<not> empty df" by (simp add: empty_def)
qed

lemma empty_empty_frame: "empty empty_frame"
  by (simp add: empty_def empty_frame_def nrows_def)

text \<open>A frame that is not empty comes from a decoded document and its conversion.\<close>

lemma fetch_nonempty:
  assumes f: "snd (fetch_stock_data pd requests_get symbol start_date end_date api_base_url) = Inr df"
    and ne: "\<not> empty df"
  shows "\<exists>r kvs s data printed.
           requests_get (api_url_of api_base_url symbol start_date end_date) = Inr r
         \<and> \<not> (400 \<le> status_code r \<and> status_code r < 600)
         \<and> json_result r = Inr (JObj kvs)
         \<and> map_of kvs ''symbol'' = Some (JStr s)
         \<and> map_of kvs ''data'' = Some (JArr data)
         \<and> convert pd data = (printed, Inr df) \<and> df \<noteq> empty_frame"
proof -
  let ?url = "api_url_of api_base_url symbol start_date end_date"
  from ne have nf: "df \<noteq> empty_frame" using empty_empty_frame by auto
  with f have tb: "snd (try_body pd requests_get symbol ?url) = Inr df"
    by (auto simp: fetch_result split: sum.splits)
  then obtain r where g: "requests_get ?url = Inr r"
    by (cases "requests_get ?url") (auto simp: try_body_def)
  have ok: "\<not> (400 \<le> status_code r \<and> status_code r < 600)"
    using tb g try_body_rejected [of requests_get ?url r pd symbol] by auto
  from tb g ok nf obtain j where j: "json_result r = Inr j"
    by (cases "json_result r") (auto simp: try_body_def raise_for_status_def split: if_splits)
  from try_body_decoded [of requests_get ?url r j pd symbol] g ok j tb have p: "snd (process pd symbol j) = Inr df" by simp
  from p nf obtain kvs v data where jo: "j = JObj kvs" and v: "map_of kvs ''symbol'' = Some v"
    and da: "map_of kvs ''data'' = Some (JArr data)"
    by (cases j) (auto split: option.splits json.splits)
  from p nf jo v da obtain s where s: "v = JStr s"
    by (cases v) (auto simp: check_symbol_def)
  obtain printed r' where c: "convert pd data = (printed, r')" by (cases "convert pd data")
  from p nf jo v da s c have "r' = Inr df"
    by (auto simp: check_symbol_def split: if_splits)
  with g ok j jo v s da c nf show ?thesis by blast
qed

lemma try_body_payload:
  assumes "requests_get url = Inr r" and "\<not> (400 \<le> status_code r \<and> status_code r < 600)"
    and "json_result r = Inr (JObj kvs)"
    and "map_of kvs ''symbol'' = Some (JStr s)"
    and "map_of kvs ''data'' = Some (JArr data)"
    and "data \<noteq> []"
  shows "try_body pd requests_get symbol url =
           ((if upper s \<noteq> upper symbol then [SymbolWarning s] else []) @ fst (convert pd data),
            snd (convert pd data))"
  using try_body_decoded [of requests_get url r "JObj kvs" pd symbol]
    process_string_symbol [of kvs s data pd symbol] assms
  by simp

lemma to_datetime_cells_nth:
  "to_datetime_cells pd vs = Inr ts \<Longrightarrow> i < length vs \<Longrightarrow> to_datetime_cell pd (vs ! i) = Inr (ts ! i)"
proof (induction vs arbitrary: ts i)
  case Nil
  then show ?case by simp
next
  case (Cons v vs)
  then show ?case by (cases i) (auto split: sum.splits)
qed

lemma to_datetime_cells_succeeds:
  "\<forall>v \<in> set vs. \<exists>t. to_datetime_cell pd v = Inr t \<Longrightarrow> \<exists>ts. to_datetime_cells pd vs = Inr ts"
  by (induction vs) auto

lemma fetch_payload_returns:
  assumes g: "requests_get (api_url_of api_base_url symbol start_date end_date) = Inr r"
    and ok: "\<not> (400 \<le> status_code r \<and> status_code r < 600)"
    and j: "json_result r = Inr (JObj kvs)"
    and s: "map_of kvs ''symbol'' = Some (JStr s)"
    and da: "map_of kvs ''data'' = Some (JArr data)"
    and d: "data \<noteq> []"
    and recs: "list_all is_record data"
    and one: "\<forall>c \<in> set required_cols. \<exists>k. source_keys data (Name c) = [k]"
    and dates: "\<forall>k d. source_keys data (Name ''Date'') = [k] \<and> d \<in> set data
                  \<longrightarrow> (\<exists>t. to_datetime_cell pd (dict_get d k) = Inr t)"
  shows "\<exists>df. snd (fetch_stock_data pd requests_get symbol start_date end_date api_base_url) = Inr df
           \<and> nrows df = length data \<and> \<not> empty df
           \<and> (\<forall>c \<in> set numeric_cols \<union> {''Volume''}. \<exists>k. source_keys data (Name c) = [k]
                 \<and> series df c = Inr (Numbers (map (\<lambda>d. to_numeric_cell pd (dict_get d k)) data)))"
proof -
  let ?url = "api_url_of api_base_url symbol start_date end_date"
  from one obtain kd where kd: "source_keys data (Name ''Date'') = [kd]"
    by (auto simp: required_cols_def)
  with dates have "\<forall>v \<in> set (column_of data kd). \<exists>t. to_datetime_cell pd v = Inr t"
    by (auto simp: column_of_def)
  from to_datetime_cells_succeeds [OF this] obtain ts where
    ts: "to_datetime_cells pd (column_of data kd) = Inr ts" by blast
  from convert_succeeds [OF d recs one kd ts] obtain printed df where
    conv: "convert pd data = (printed, Inr df)" and nf: "df \<noteq> empty_frame"
    by blast
  have "snd (try_body pd requests_get symbol ?url) = Inr df"
    using try_body_payload [of requests_get ?url r kvs s data pd symbol] g ok j s da d conv by simp
  then have f: "snd (fetch_stock_data pd requests_get symbol start_date end_date api_base_url) = Inr df"
    by (simp add: fetch_result)
  have cols: "\<forall>c \<in> set numeric_cols \<union> {''Volume''}. \<exists>k. source_keys data (Name c) = [k]
                 \<and> series df c = Inr (Numbers (map (\<lambda>d. to_numeric_cell pd (dict_get d k)) data))"
    using convert_Inr(3) [OF conv nf]
    by (auto simp: series_select column_of_def comp_def)
  from f convert_Inr_rows [OF conv nf] cols show ?thesis by blast
qed

lemma except_clauses_printed: "MissingColumnsMsg \<notin> set (fst (except_clauses e))"
  by (simp add: except_clauses_def)

lemma convert_gate_passed:
  assumes "data \<noteq> []" and "list_all is_record data"
    and "\<forall>c \<in> set required_cols. source_keys data (Name c) \<noteq> []"
  shows "MissingColumnsMsg \<notin> set (fst (convert pd data))"
  unfolding convert_records [OF assms(1,2)] using assms(3)
  by (auto split: sum.splits)

lemma convert_gate_failed:
  assumes "data \<noteq> []" and "\<exists>c \<in> set required_cols. source_keys data (Name c) = []"
  shows "case snd (convert pd data) of Inl e \<Rightarrow> True | Inr df \<Rightarrow> df = empty_frame"
proof (cases "list_all is_record data")
  case True
  with assms show ?thesis by (simp add: convert_records)
next
  case False
  with assms(1) show ?thesis by (rule convert_not_records)
qed

section \<open>Dates\<close>

text \<open>
  Claim C3, as stated: the dates of every returned series are unique and strictly
  increasing. The fetcher neither sorts nor removes duplicates: for the payload below the
  index is out of order and repeats a date.
\<close>

theorem fetched_dates_unordered:
  "snd (fetch_stock_data pd0 (answers 200 (Inr (payload (JStr ''TEST'') unordered_data)))
          ''TEST'' ''2024-01-01'' ''2024-01-02'' ''http://mockapi.com'')
     = Inr \<lparr>df_index =
               DatetimeIndex [Timestamp 1704153600000000000, Timestamp 1704067200000000000,
                              Timestamp 1704067200000000000],
             df_columns =
               [(Name ''Open'', Numbers [Fin 156, Fin 150, Fin 151]),
                (Name ''Close'', Numbers [Fin 158, Fin 155, Fin 152]),
                (Name ''High'', Numbers [Fin 159, Fin 157, Fin 153]),
                (Name ''Low'', Numbers [Fin 154, Fin 149, Fin 150]),
                (Name ''Volume'', Numbers [Fin 1100000, Fin 1000000, Fin 900000])]\<rparr>
   \<and> \<not> sorted_wrt before [Timestamp 1704153600000000000, Timestamp 1704067200000000000,
                           Timestamp 1704067200000000000]
   \<and> \<not> distinct [Timestamp 1704153600000000000, Timestamp 1704067200000000000,
                    Timestamp 1704067200000000000]"
  by (simp add: eval_defs)

text \<open>
  Claim C3, amended. The index of a returned frame that is not empty is the list of the
  parsed \<^verbatim>\<open>Date\<close> values of the payload's records, in the order of the payload, one
  for each record. So the dates are unique and strictly increasing exactly when those of
  the payload are.
\<close>

theorem fetched_dates_follow_payload:
  assumes g: "requests_get (api_url_of api_base_url symbol start_date end_date) = Inr r"
    and j: "json_result r = Inr (JObj kvs)"
    and da: "map_of kvs ''data'' = Some (JArr data)"
    and f: "snd (fetch_stock_data pd requests_get symbol start_date end_date api_base_url) = Inr df"
    and ne: "\<not> empty df"
  shows "\<exists>k ts. source_keys data (Name ''Date'') = [k]
           \<and> df_index df = DatetimeIndex ts
           \<and> length ts = length data
           \<and> (\<forall>i < length data. to_datetime_cell pd (dict_get (data ! i) k) = Inr (ts ! i))"
proof -
  from fetch_nonempty [OF f ne] g j da obtain printed where
    conv: "convert pd data = (printed, Inr df)" and nf: "df \<noteq> empty_frame"
    by auto
  from convert_Inr(2) [OF conv nf] obtain k ts where
    k: "source_keys data (Name ''Date'') = [k]"
    and ts: "to_datetime_cells pd (column_of data k) = Inr ts"
    and ix: "df_index df = DatetimeIndex ts"
    by blast
  have "length ts = length data"
    using to_datetime_cells_length [OF ts] by (simp add: column_of_def)
  moreover have "to_datetime_cell pd (dict_get (data ! i) k) = Inr (ts ! i)" if "i < length data" for i
    using to_datetime_cells_nth [OF ts, of i] that by (simp add: column_of_def)
  ultimately show ?thesis using k ix by blast
qed

theorem fetched_dates_follow_payload_witness:
  "\<exists>k ts. source_keys unordered_data (Name ''Date'') = [k]
     \<and> DatetimeIndex [Timestamp 1704153600000000000, Timestamp 1704067200000000000,
                       Timestamp 1704067200000000000] = DatetimeIndex ts
     \<and> length ts = length unordered_data
     \<and> (\<forall>i < length unordered_data.
           to_datetime_cell pd0 (dict_get (unordered_data ! i) k) = Inr (ts ! i))"
proof -
  have f: "snd (fetch_stock_data pd0 (answers 200 (Inr (payload (JStr ''TEST'') unordered_data)))
          ''TEST'' ''2024-01-01'' ''2024-01-02'' ''http://mockapi.com'')
     = Inr \<lparr>df_index =
               DatetimeIndex [Timestamp 1704153600000000000, Timestamp 1704067200000000000,
                              Timestamp 1704067200000000000],
             df_columns =
               [(Name ''Open'', Numbers [Fin 156, Fin 150, Fin 151]),
                (Name ''Close'', Numbers [Fin 158, Fin 155, Fin 152]),
                (Name ''High'', Numbers [Fin 159, Fin 157, Fin 153]),
                (Name ''Low'', Numbers [Fin 154, Fin 149, Fin 150]),
                (Name ''Volume'', Numbers [Fin 1100000, Fin 1000000, Fin 900000])]\<rparr>"
    by (simp add: eval_defs)
  show ?thesis
    using fetched_dates_follow_payload
      [of "answers 200 (Inr (payload (JStr ''TEST'') unordered_data))"
        "''http://mockapi.com''" "''TEST''" "''2024-01-01''" "''2024-01-02''"
        "\<lparr>status_code = 200, json_result = Inr (payload (JStr ''TEST'') unordered_data)\<rparr>"
        "[(''symbol'', JStr ''TEST''), (''data'', JArr unordered_data)]" unordered_data pd0, OF _ _ _ f]
    by (simp add: answers_def payload_def empty_def nrows_def)
qed

section \<open>Numeric coercion\<close>




section \<open>The column gate\<close>

text \<open>
  Claim C5. For a payload past the earlier gates (decoded, an object with a string
  \<^verbatim>\<open>symbol\<close> and a sequence \<^verbatim>\<open>data\<close> that is not empty): when no record has a key
  for one of the six canonical columns, the empty frame is returned. When every
  canonical column has a key in some record, records that lack the key do not count as
  an absent column: the message of the column gate is not printed, and when the later
  stages do not raise (no duplicated column, every date parses) the frame returned is
  not empty and has a row for each record.
\<close>

theorem column_gate:
  assumes g: "requests_get (api_url_of api_base_url symbol start_date end_date) = Inr r"
    and ok: "\<not> (400 \<le> status_code r \<and> status_code r < 600)"
    and j: "json_result r = Inr (JObj kvs)"
    and s: "map_of kvs ''symbol'' = Some (JStr s)"
    and da: "map_of kvs ''data'' = Some (JArr data)"
    and d: "data \<noteq> []"
  shows "((\<exists>c \<in> set required_cols. source_keys data (Name c) = [])
            \<longrightarrow> snd (fetch_stock_data pd requests_get symbol start_date end_date api_base_url)
                  = Inr empty_frame)
       \<and> (list_all is_record data \<and> (\<forall>c \<in> set required_cols. source_keys data (Name c) \<noteq> [])
            \<longrightarrow> MissingColumnsMsg
                  \<notin> set (fst (fetch_stock_data pd requests_get symbol start_date end_date
                                api_base_url)))
       \<and> (list_all is_record data
            \<and> (\<forall>c \<in> set required_cols. \<exists>k. source_keys data (Name c) = [k])
            \<and> (\<forall>k d. source_keys data (Name ''Date'') = [k] \<and> d \<in> set data
                  \<longrightarrow> (\<exists>t. to_datetime_cell pd (dict_get d k) = Inr t))
            \<longrightarrow> (\<exists>df. snd (fetch_stock_data pd requests_get symbol start_date end_date
                              api_base_url) = Inr df
                     \<and> \<not> empty df \<and> nrows df = length data))"
proof (intro conjI impI)
  let ?url = "api_url_of api_base_url symbol start_date end_date"
  have tb: "try_body pd requests_get symbol ?url =
           ((if upper s \<noteq> upper symbol then [SymbolWarning s] else []) @ fst (convert pd data),
            snd (convert pd data))"
    using try_body_payload [of requests_get ?url r kvs s data pd symbol] g ok j s da d by simp
  {
    assume "\<exists>c \<in> set required_cols. source_keys data (Name c) = []"
    from convert_gate_failed [OF d this, of pd]
    show "snd (fetch_stock_data pd requests_get symbol start_date end_date api_base_url)
        = Inr empty_frame"
      by (simp add: fetch_result tb split: sum.splits)
  next
    assume "list_all is_record data \<and> (\<forall>c \<in> set required_cols. source_keys data (Name c) \<noteq> [])"
    then have "MissingColumnsMsg \<notin> set (fst (convert pd data))"
      using convert_gate_passed [OF d, of pd] by simp
    then show "MissingColumnsMsg
        \<notin> set (fst (fetch_stock_data pd requests_get symbol start_date end_date api_base_url))"
      by (simp add: fetch_printed tb except_clauses_printed split: sum.splits)
  next
    assume "list_all is_record data
        \<and> (\<forall>c \<in> set required_cols. \<exists>k. source_keys data (Name c) = [k])
        \<and> (\<forall>k d. source_keys data (Name ''Date'') = [k] \<and> d \<in> set data
              \<longrightarrow> (\<exists>t. to_datetime_cell pd (dict_get d k) = Inr t))"
    then show "\<exists>df. snd (fetch_stock_data pd requests_get symbol start_date end_date
                          api_base_url) = Inr df
                 \<and> \<not> empty df \<and> nrows df = length data"
      using fetch_payload_returns
          [of requests_get api_base_url symbol start_date end_date r kvs s data pd] g ok j s da d
      by blast
  }
qed

theorem column_gate_witness:
  "snd (fetch_stock_data pd0 (answers 200 (Inr (payload (JStr ''TEST'') headless_data)))
          ''TEST'' ''2024-01-01'' ''2024-01-02'' ''http://mockapi.com'') = Inr empty_frame
   \<and> source_keys partial_data (Name ''Open'') = [''open'']
   \<and> dict_get (partial_data ! 1) ''open'' = None
   \<and> MissingColumnsMsg
        \<notin> set (fst (fetch_stock_data pd0 (answers 200 (Inr (payload (JStr ''TEST'') partial_data)))
                      ''TEST'' ''2024-01-01'' ''2024-01-02'' ''http://mockapi.com''))
   \<and> (\<exists>df. snd (fetch_stock_data pd0 (answers 200 (Inr (payload (JStr ''TEST'') partial_data)))
                  ''TEST'' ''2024-01-01'' ''2024-01-02'' ''http://mockapi.com'') = Inr df
          \<and> \<not> empty df \<and> nrows df = length partial_data)"
proof -
  have absent: "\<exists>c \<in> set required_cols. source_keys headless_data (Name c) = []"
    by (simp add: eval_defs)
  have one: "\<forall>c \<in> set required_cols. \<exists>k. source_keys partial_data (Name c) = [k]"
    by (simp add: eval_defs)
  then have some: "\<forall>c \<in> set required_cols. source_keys partial_data (Name c) \<noteq> []"
    by auto
  have dates: "\<forall>k d. source_keys partial_data (Name ''Date'') = [k] \<and> d \<in> set partial_data
            \<longrightarrow> (\<exists>t. to_datetime_cell pd0 (dict_get d k) = Inr t)"
    by (auto simp: eval_defs)
  have recs: "partial_data \<noteq> []" "list_all is_record partial_data" "headless_data \<noteq> []"
    by (simp_all add: partial_data_def headless_data_def point_def)
  have part: "source_keys partial_data (Name ''Open'') = [''open'']"
      "dict_get (partial_data ! 1) ''open'' = None"
    by (simp_all add: eval_defs)
  show ?thesis
    using column_gate
      [of "answers 200 (Inr (payload (JStr ''TEST'') headless_data))"
        "''http://mockapi.com''" "''TEST''" "''2024-01-01''" "''2024-01-02''"
        "\<lparr>status_code = 200, json_result = Inr (payload (JStr ''TEST'') headless_data)\<rparr>"
        "[(''symbol'', JStr ''TEST''), (''data'', JArr headless_data)]" "''TEST''" headless_data pd0]
      column_gate
      [of "answers 200 (Inr (payload (JStr ''TEST'') partial_data))"
        "''http://mockapi.com''" "''TEST''" "''2024-01-01''" "''2024-01-02''"
        "\<lparr>status_code = 200, json_result = Inr (payload (JStr ''TEST'') partial_data)\<rparr>"
        "[(''symbol'', JStr ''TEST''), (''data'', JArr partial_data)]" "''TEST''" partial_data pd0]
      absent one some dates recs part
    by (simp add: answers_def payload_def)
qed

section \<open>Windows of a finite series\<close>

lemma window_length:
  assumes "t < length xs"
  shows "length (window w t xs) = min (Suc t) w"
  using assms by (auto simp: window_def)

lemma window_map: "window w t (map f xs) = map f (window w t xs)"
  by (simp add: window_def drop_map take_map)

lemma window_nth:
  assumes "t < length xs" and "i < min (Suc t) w"
  shows "window w t xs ! i = xs ! (Suc t - min (Suc t) w + i)"
proof -
  have a: "Suc t - w = Suc t - min (Suc t) w" by auto
  from assms(2) have b: "Suc t - min (Suc t) w + i < Suc t" by auto
  have "window w t xs ! i = take (Suc t) xs ! (Suc t - min (Suc t) w + i)"
    using assms by (simp add: window_def a)
  also have "\<dots> = xs ! (Suc t - min (Suc t) w + i)"
    using b by (rule nth_take)
  finally show ?thesis .
qed

lemma sum_list_window:
  fixes f :: "'a \<Rightarrow> real"
  assumes "t < length xs"
  shows "sum_list (map f (window w t xs)) = (\<Sum>i = Suc t - min (Suc t) w..<Suc t. f (xs ! i))"
proof -
  let ?n = "min (Suc t) w"
  let ?a = "Suc t - ?n"
  have "sum_list (map f (window w t xs)) = (\<Sum>i = 0..<?n. f (window w t xs ! i))"
    using window_length [OF assms, of w] by (simp add: sum_list_sum_nth)
  also have "\<dots> = (\<Sum>i = 0..<?n. f (xs ! (?a + i)))"
    using window_nth [OF assms] by simp
  also have "\<dots> = (\<Sum>i = ?a + 0..<?a + ?n. f (xs ! i))"
    by (simp only: sum.shift_bounds_nat_ivl add.commute)
  also have "?a + ?n = Suc t" by auto
  finally show ?thesis by simp
qed

lemma observed_finite: "observed (map Fin ws) = map Fin ws"
  by (induction ws) (simp_all add: observed_def)

lemma num_sum_finite: "num_sum (map Fin ws) = Fin (sum_list ws)"
  by (induction ws) simp_all

lemma mean_finite: "ws \<noteq> [] \<Longrightarrow> mean (map Fin ws) = Fin (sum_list ws / real (length ws))"
  by (simp add: mean_def num_sum_finite)

lemma var_finite:
  assumes "2 \<le> length ws"
  shows "var (map Fin ws) =
    Fin ((\<Sum>x\<leftarrow>ws. (x - sum_list ws / real (length ws))\<^sup>2) / real (length ws - 1))"
proof -
  from assms have ne: "ws \<noteq> []" by auto
  have "map (\<lambda>v. num_mul (num_sub v (mean (map Fin ws))) (num_sub v (mean (map Fin ws)))) (map Fin ws)
      = map Fin (map (\<lambda>x. (x - sum_list ws / real (length ws))\<^sup>2) ws)"
    by (simp add: mean_finite [OF ne] num_sub_def power2_eq_square)
  with assms show ?thesis
    by (simp add: var_def num_sum_finite del: map_map)
qed

lemma std_finite:
  assumes "2 \<le> length ws"
  shows "std (map Fin ws) =
    Fin (sqrt ((\<Sum>x\<leftarrow>ws. (x - sum_list ws / real (length ws))\<^sup>2) / real (length ws - 1)))"
proof -
  have "0 \<le> (\<Sum>x\<leftarrow>ws. (x - sum_list ws / real (length ws))\<^sup>2)"
    by (rule sum_list_nonneg) auto
  then have "0 \<le> (\<Sum>x\<leftarrow>ws. (x - sum_list ws / real (length ws))\<^sup>2) / real (length ws - 1)"
    by simp
  then show ?thesis by (simp add: std_def var_finite [OF assms] not_less [symmetric])
qed

lemma std_single: "length ws \<le> 1 \<Longrightarrow> std ws = NaN"
  by (simp add: std_def var_def)

lemma rolling_finite:
  "rolling w (Suc 0) agg (map Fin cs) =
     map (\<lambda>t. agg (map Fin (window w t cs))) [0..<length cs]" if "0 < w"
proof -
  have "length (window w t cs) \<noteq> 0" if "t < length cs" for t
    using window_length [OF that, of w] \<open>0 < w\<close> by simp
  then show ?thesis
    by (simp add: rolling_def window_map observed_finite Let_def)
qed

lemma rolling_mean_finite:
  assumes "0 < w"
  shows "rolling w 1 mean (map Fin cs) =
     map (\<lambda>t. Fin ((\<Sum>i = Suc t - min (Suc t) w..<Suc t. cs ! i) / real (min (Suc t) w)))
       [0..<length cs]"
proof -
  have "mean (map Fin (window w t cs)) =
      Fin ((\<Sum>i = Suc t - min (Suc t) w..<Suc t. cs ! i) / real (min (Suc t) w))"
    if t: "t < length cs" for t
  proof -
    have len: "length (window w t cs) = min (Suc t) w" by (rule window_length [OF t])
    with assms have "window w t cs \<noteq> []" by auto
    then have "mean (map Fin (window w t cs)) =
        Fin (sum_list (window w t cs) / real (length (window w t cs)))"
      by (rule mean_finite)
    also have "sum_list (window w t cs) = (\<Sum>i = Suc t - min (Suc t) w..<Suc t. cs ! i)"
      using sum_list_window [OF t, of "\<lambda>x. x" w] by simp
    finally show ?thesis by (simp add: len)
  qed
  then show ?thesis
    using assms by (simp add: rolling_finite)
qed

lemma rolling_std_finite:
  "rolling 30 1 std (map Fin cs) =
     map (\<lambda>t. if t = 0 then NaN
              else Fin (sqrt ((\<Sum>i = Suc t - min (Suc t) 30..<Suc t.
                                 (cs ! i
                                  - (\<Sum>j = Suc t - min (Suc t) 30..<Suc t. cs ! j)
                                      / real (min (Suc t) 30))\<^sup>2)
                              / real (min (Suc t) 30 - 1))))
       [0..<length cs]"
proof -
  have "std (map Fin (window 30 t cs)) =
      (if t = 0 then NaN
       else Fin (sqrt ((\<Sum>i = Suc t - min (Suc t) 30..<Suc t.
                          (cs ! i
                           - (\<Sum>j = Suc t - min (Suc t) 30..<Suc t. cs ! j)
                               / real (min (Suc t) 30))\<^sup>2)
                       / real (min (Suc t) 30 - 1))))"
    if t: "t < length cs" for t
  proof (cases "t = 0")
    case True
    with window_length [OF t, of 30] have "length (map Fin (window 30 t cs)) \<le> 1" by simp
    then have "std (map Fin (window 30 t cs)) = NaN" by (rule std_single)
    with True show ?thesis by simp
  next
    case False
    have len: "length (window 30 t cs) = min (Suc t) 30" by (rule window_length [OF t])
    with False have two: "2 \<le> length (window 30 t cs)" by auto
    have m: "sum_list (window 30 t cs) = (\<Sum>j = Suc t - min (Suc t) 30..<Suc t. cs ! j)"
      using sum_list_window [OF t, of "\<lambda>x. x" 30] by simp
    show ?thesis
      using False
      by (simp only: std_finite [OF two] m len sum_list_window [OF t] if_False)
  qed
  then show ?thesis
    by (simp add: rolling_finite)
qed










lemma rolling_length [simp]: "length (rolling w m agg xs) = length xs"
  by (simp add: rolling_def)


section \<open>The callback on a fetched frame\<close>

lemma series_iff: "series df c = Inr s \<longleftrightarrow> select df (Name c) = [s]"
  by (auto simp: series_def getitem_def Let_def split: list.splits)

lemma select_setitem:
  "select (setitem df c s) l =
     (if l = Name c then (if select df l = [] then [s] else map (\<lambda>_. s) (select df l))
      else select df l)"
proof (cases "Name c \<in> set (labels df)")
  case True
  then have "select df (Name c) \<noteq> []" by (simp add: in_labels_select)
  with True show ?thesis
    by (simp add: setitem_def select_def select_replace)
next
  case False
  then have "select df (Name c) = []" by (simp add: in_labels_select)
  with False show ?thesis
    by (auto simp: setitem_def select_def)
qed

lemma df_index_setitem [simp]: "df_index (setitem df c s) = df_index df"
  by (simp add: setitem_def)

lemma series_setitem:
  assumes "length (select df (Name c)) \<le> 1"
  shows "series (setitem df c s) c = Inr s"
proof -
  from assms have "select (setitem df c s) (Name c) = [s]"
    by (cases "select df (Name c)") (simp_all add: select_setitem)
  then show ?thesis by (simp add: series_iff)
qed

lemma isnull_all_Numbers [simp]: "isnull_all (Numbers xs) = list_all isnull_num xs"
  by (simp add: isnull_all_def list.pred_map comp_def)

text \<open>Only the canonical columns can come from two keys of the records.\<close>

lemma rename_label_other:
  assumes "rename_label column_mapping (Name k) = Name c" and "c \<notin> set required_cols"
  shows "k = c"
  using assms
  by (auto simp: rename_label_def column_mapping_def required_cols_def split: if_splits)

lemma distinct_first_seen: "distinct (first_seen xs)"
  by (simp add: first_seen_def)

lemma source_keys_other:
  assumes "c \<notin> set required_cols"
  shows "length (source_keys data (Name c)) \<le> 1"
proof -
  let ?ks = "first_seen (concat (map keys data))"
  have "source_keys data (Name c) =
      filter (\<lambda>k. rename_label column_mapping (Name k) = Name c) (filter (\<lambda>k. k = c) ?ks)"
    unfolding source_keys_def filter_filter
    by (rule filter_cong) (auto dest: rename_label_other [OF _ assms])
  then have "length (source_keys data (Name c)) \<le> length (filter (\<lambda>k. k = c) ?ks)"
    by (simp only: length_filter_le)
  also have "length (filter (\<lambda>k. k = c) ?ks) = card ({k. k = c} \<inter> set ?ks)"
    by (rule distinct_length_filter [OF distinct_first_seen])
  also have "\<dots> \<le> card {c}"
    by (rule card_mono) auto
  finally show ?thesis by simp
qed

lemma convert_Inr_other:
  assumes conv: "convert pd data = (printed, Inr df)" and ne: "df \<noteq> empty_frame"
    and c: "c \<notin> set required_cols"
  shows "length (select df (Name c)) \<le> 1"
proof -
  note dr = convert_Inr(1) [OF conv ne]
  let ?base = "rename column_mapping (from_records data)"
  from conv ne obtain dates df1 where
        c1: "coerce_columns pd numeric_cols (set_index ?base ''Date'' dates) = Inr df1"
    and c2: "coerce_column pd df1 ''Volume'' = Inr df"
    using dr by (auto simp: convert_records split: if_splits sum.splits)
  from c have nv: "Name c \<noteq> Name ''Volume''" "Name c \<notin> Name ` set numeric_cols"
      "Name c \<noteq> Name ''Date''"
    by (auto simp: required_cols_def numeric_cols_def)
  have "select df (Name c) = select df1 (Name c)"
    using coerce_column_Inr(2) [OF c2, of "Name c"] nv by simp
  also have "\<dots> = select (set_index ?base ''Date'' dates) (Name c)"
    using coerce_columns_Inr [OF c1] nv by simp
  also have "\<dots> = map (\<lambda>k. Objects (column_of data k)) (source_keys data (Name c))"
    using nv by (simp add: select_set_index select_rename_records)
  finally show ?thesis using source_keys_other [OF c, of data] by simp
qed

lemma fetched_frame:
  assumes f: "snd (fetch_stock_data pd requests_get symbol start_date end_date api_base_url) = Inr df"
    and ne: "\<not> empty df"
  shows "\<forall>c \<in> set numeric_cols \<union> {''Volume''}.
           \<exists>xs. select df (Name c) = [Numbers xs] \<and> length xs = nrows df \<and> xs \<noteq> []"
    and "\<forall>c. c \<notin> set required_cols \<longrightarrow> length (select df (Name c)) \<le> 1"
proof -
  from fetch_nonempty [OF f ne] obtain data printed where
    conv: "convert pd data = (printed, Inr df)" and nf: "df \<noteq> empty_frame"
    by blast
  show "\<forall>c \<in> set numeric_cols \<union> {''Volume''}.
           \<exists>xs. select df (Name c) = [Numbers xs] \<and> length xs = nrows df \<and> xs \<noteq> []"
  proof
    fix c assume "c \<in> set numeric_cols \<union> {''Volume''}"
    with convert_Inr(3) [OF conv nf] obtain k where
      "select df (Name c) = [Numbers (map (to_numeric_cell pd) (column_of data k))]"
      by blast
    moreover have "length (map (to_numeric_cell pd) (column_of data k)) = nrows df"
      using convert_Inr_rows(1) [OF conv nf] by (simp add: column_of_def)
    moreover have "map (to_numeric_cell pd) (column_of data k) \<noteq> []"
      using convert_Inr(1) [OF conv nf] by (simp add: column_of_def)
    ultimately show "\<exists>xs. select df (Name c) = [Numbers xs] \<and> length xs = nrows df \<and> xs \<noteq> []"
      by blast
  qed
  show "\<forall>c. c \<notin> set required_cols \<longrightarrow> length (select df (Name c)) \<le> 1"
    using convert_Inr_other [OF conv nf] by blast
qed

lemma update_charts_fetched:
  assumes "symbol \<noteq> []" and "start_date \<noteq> []" and "end_date \<noteq> []"
    and "snd (fetch_stock_data pd requests_get symbol start_date end_date ''http://localhost:8000'')
           = Inr df"
    and "\<not> empty df"
  shows "update_charts pd requests_get (Some symbol) (Some start_date) (Some end_date)
           ma_selected_values return_toggle_value volatility_toggle_value =
         charts pd symbol (or_empty ma_selected_values) (or_empty return_toggle_value)
           (or_empty volatility_toggle_value) df"
  using assms by (simp add: update_charts_def truthy_def or_empty_def)

lemma moving_average_numeric:
  assumes close: "select df (Name ''Close'') = [Numbers xs]"
    and fresh: "length (select df (Name col)) \<le> 1"
    and neq: "col \<noteq> ''Close''"
  shows "\<exists>df'. moving_average ma col w name df =
           Inr (df',
                if col \<in> set ma \<and> \<not> list_all isnull_num (rolling w 1 mean xs)
                then [\<lparr>kind = Scatter, trace_name = name, trace_x = df_index df,
                       trace_y = Numbers (rolling w 1 mean xs)\<rparr>]
                else [])
         \<and> df_index df' = df_index df
         \<and> (\<forall>l. l \<noteq> Name col \<longrightarrow> select df' l = select df l)"
proof (cases "col \<in> set ma")
  case False
  then show ?thesis by (simp add: moving_average_def)
next
  case True
  let ?df' = "setitem df col (Numbers (rolling w 1 mean xs))"
  from close have s: "series df ''Close'' = Inr (Numbers xs)" by (simp add: series_iff)
  have readback: "series ?df' col = Inr (Numbers (rolling w 1 mean xs))"
    by (rule series_setitem [OF fresh])
  have "moving_average ma col w name df =
      Inr (?df',
           if \<not> list_all isnull_num (rolling w 1 mean xs)
           then [\<lparr>kind = Scatter, trace_name = name, trace_x = df_index df,
                  trace_y = Numbers (rolling w 1 mean xs)\<rparr>]
           else [])"
    using True readback by (simp add: moving_average_def s Let_def)
  moreover have "\<forall>l. l \<noteq> Name col \<longrightarrow> select ?df' l = select df l"
    by (simp add: select_setitem)
  ultimately show ?thesis using True by auto
qed

lemma price_chart_numeric:
  assumes close: "select df (Name ''Close'') = [Numbers xs]"
    and fresh: "length (select df (Name ''MA50'')) \<le> 1" "length (select df (Name ''MA200'')) \<le> 1"
  shows "\<exists>df'. price_chart symbol ma df =
     Inr (df',
          \<lparr>traces =
             \<lparr>kind = Scatter, trace_name = ''Close'', trace_x = df_index df,
               trace_y = Numbers xs\<rparr>
             # (if ''MA50'' \<in> set ma \<and> \<not> list_all isnull_num (rolling 50 1 mean xs)
                then [\<lparr>kind = Scatter, trace_name = ''50-Day MA'', trace_x = df_index df,
                       trace_y = Numbers (rolling 50 1 mean xs)\<rparr>]
                else [])
             @ (if ''MA200'' \<in> set ma \<and> \<not> list_all isnull_num (rolling 200 1 mean xs)
                then [\<lparr>kind = Scatter, trace_name = ''200-Day MA'', trace_x = df_index df,
                       trace_y = Numbers (rolling 200 1 mean xs)\<rparr>]
                else []),
           title_text = symbol @ '' Stock Price with Moving Averages''\<rparr>)
     \<and> df_index df' = df_index df
     \<and> (\<forall>l. l \<noteq> Name ''MA50'' \<and> l \<noteq> Name ''MA200'' \<longrightarrow> select df' l = select df l)"
proof -
  from close have s: "series df ''Close'' = Inr (Numbers xs)" by (simp add: series_iff)
  from close have lab: "Name ''Close'' \<in> set (labels df)" by (simp add: in_labels_select)
  from moving_average_numeric [OF close fresh(1), of ma 50 "''50-Day MA''"] obtain df1 where
    m1: "moving_average ma ''MA50'' 50 ''50-Day MA'' df =
           Inr (df1,
                if ''MA50'' \<in> set ma \<and> \<not> list_all isnull_num (rolling 50 1 mean xs)
                then [\<lparr>kind = Scatter, trace_name = ''50-Day MA'', trace_x = df_index df,
                       trace_y = Numbers (rolling 50 1 mean xs)\<rparr>]
                else [])"
    and i1: "df_index df1 = df_index df"
    and k1: "\<forall>l. l \<noteq> Name ''MA50'' \<longrightarrow> select df1 l = select df l"
    by auto
  from k1 close fresh(2) have close1: "select df1 (Name ''Close'') = [Numbers xs]"
    and fresh1: "length (select df1 (Name ''MA200'')) \<le> 1"
    by simp_all
  from moving_average_numeric [OF close1 fresh1, of ma 200 "''200-Day MA''"] obtain df2 where
    m2: "moving_average ma ''MA200'' 200 ''200-Day MA'' df1 =
           Inr (df2,
                if ''MA200'' \<in> set ma \<and> \<not> list_all isnull_num (rolling 200 1 mean xs)
                then [\<lparr>kind = Scatter, trace_name = ''200-Day MA'', trace_x = df_index df1,
                       trace_y = Numbers (rolling 200 1 mean xs)\<rparr>]
                else [])"
    and i2: "df_index df2 = df_index df1"
    and k2: "\<forall>l. l \<noteq> Name ''MA200'' \<longrightarrow> select df2 l = select df1 l"
    by auto
  have "price_chart symbol ma df =
     Inr (df2,
          \<lparr>traces =
             \<lparr>kind = Scatter, trace_name = ''Close'', trace_x = df_index df,
               trace_y = Numbers xs\<rparr>
             # (if ''MA50'' \<in> set ma \<and> \<not> list_all isnull_num (rolling 50 1 mean xs)
                then [\<lparr>kind = Scatter, trace_name = ''50-Day MA'', trace_x = df_index df,
                       trace_y = Numbers (rolling 50 1 mean xs)\<rparr>]
                else [])
             @ (if ''MA200'' \<in> set ma \<and> \<not> list_all isnull_num (rolling 200 1 mean xs)
                then [\<lparr>kind = Scatter, trace_name = ''200-Day MA'', trace_x = df_index df,
                       trace_y = Numbers (rolling 200 1 mean xs)\<rparr>]
                else []),
           title_text = symbol @ '' Stock Price with Moving Averages''\<rparr>)"
    unfolding price_chart_def s Let_def using lab by (simp only: m1 m2 i1 sum.case prod.case if_True)
  moreover have "df_index df2 = df_index df" using i1 i2 by simp
  moreover have "\<forall>l. l \<noteq> Name ''MA50'' \<and> l \<noteq> Name ''MA200'' \<longrightarrow> select df2 l = select df l"
    using k1 k2 by simp
  ultimately show ?thesis by blast
qed

lemma daily_returns_chart_numeric:
  assumes close: "select df (Name ''Close'') = [Numbers xs]" and xs: "xs \<noteq> []"
    and fresh: "length (select df (Name ''Daily Return'')) \<le> 1"
  shows "\<exists>df'. daily_returns_chart pd symbol rt df =
     Inr (df',
          if ''SHOW_RETURNS'' \<in> set rt
          then \<lparr>traces =
                  [\<lparr>kind = Bar, trace_name = ''Daily Return'', trace_x = df_index df,
                    trace_y = Numbers (map (\<lambda>v. num_mul v (Fin 100)) (pct_change pd xs))\<rparr>],
                title_text = symbol @ '' Daily Return Rates (%)''\<rparr>
          else placeholder ''Daily Returns (Toggle On or No Data)'')
     \<and> df_index df' = df_index df
     \<and> (\<forall>l. l \<noteq> Name ''Daily Return'' \<longrightarrow> select df' l = select df l)"
proof (cases "''SHOW_RETURNS'' \<in> set rt")
  case False
  then show ?thesis by (simp add: daily_returns_chart_def)
next
  case True
  let ?ys = "map (\<lambda>v. num_mul v (Fin 100)) (pct_change pd xs)"
  let ?df' = "setitem df ''Daily Return'' (Numbers ?ys)"
  from close have s: "series df ''Close'' = Inr (Numbers xs)" by (simp add: series_iff)
  from close have lab: "Name ''Close'' \<in> set (labels df)" by (simp add: in_labels_select)
  have readback: "series ?df' ''Daily Return'' = Inr (Numbers ?ys)"
    by (rule series_setitem [OF fresh])
  have "daily_returns_chart pd symbol rt df =
      Inr (?df',
           \<lparr>traces = [\<lparr>kind = Bar, trace_name = ''Daily Return'', trace_x = df_index df,
                        trace_y = Numbers ?ys\<rparr>],
            title_text = symbol @ '' Daily Return Rates (%)''\<rparr>)"
    using True lab xs readback by (simp add: daily_returns_chart_def s column_size_def Let_def)
  moreover have "\<forall>l. l \<noteq> Name ''Daily Return'' \<longrightarrow> select ?df' l = select df l"
    by (simp add: select_setitem)
  ultimately show ?thesis using True by auto
qed

lemma volatility_chart_numeric:
  assumes close: "select df (Name ''Close'') = [Numbers xs]" and xs: "xs \<noteq> []"
    and fresh: "length (select df (Name ''Volatility'')) \<le> 1"
  shows "\<exists>df'. volatility_chart symbol vt df =
     Inr (df',
          if ''SHOW_VOLATILITY'' \<in> set vt
          then \<lparr>traces =
                  [\<lparr>kind = Scatter, trace_name = ''30-Day Volatility'', trace_x = df_index df,
                    trace_y = Numbers (rolling 30 1 std xs)\<rparr>],
                title_text = symbol @ '' 30-Day Price Volatility''\<rparr>
          else placeholder ''Volatility (Toggle On or No Data)'')"
proof (cases "''SHOW_VOLATILITY'' \<in> set vt")
  case False
  then show ?thesis by (simp add: volatility_chart_def)
next
  case True
  let ?df' = "setitem df ''Volatility'' (Numbers (rolling 30 1 std xs))"
  from close have s: "series df ''Close'' = Inr (Numbers xs)" by (simp add: series_iff)
  from close have lab: "Name ''Close'' \<in> set (labels df)" by (simp add: in_labels_select)
  have readback: "series ?df' ''Volatility'' = Inr (Numbers (rolling 30 1 std xs))"
    by (rule series_setitem [OF fresh])
  have "volatility_chart symbol vt df =
      Inr (?df',
           \<lparr>traces = [\<lparr>kind = Scatter, trace_name = ''30-Day Volatility'', trace_x = df_index df,
                        trace_y = Numbers (rolling 30 1 std xs)\<rparr>],
            title_text = symbol @ '' 30-Day Price Volatility''\<rparr>)"
    using True lab xs readback by (simp add: volatility_chart_def s column_size_def Let_def)
  then show ?thesis using True by auto
qed

text \<open>The callback returns its figures for every frame that the fetcher can return.\<close>

lemma update_charts_returns:
  assumes sym: "symbol \<noteq> []" "start_date \<noteq> []" "end_date \<noteq> []"
    and f: "snd (fetch_stock_data pd requests_get symbol start_date end_date ''http://localhost:8000'')
           = Inr df"
    and ne: "\<not> empty df"
    and close: "series df ''Close'' = Inr (Numbers xs)"
  shows "\<exists>out. update_charts pd requests_get (Some symbol) (Some start_date) (Some end_date)
            ma rt vt = Inr out
     \<and> price_fig out =
          \<lparr>traces =
             \<lparr>kind = Scatter, trace_name = ''Close'', trace_x = df_index df,
               trace_y = Numbers xs\<rparr>
             # (if ''MA50'' \<in> set (or_empty ma) \<and> \<not> list_all isnull_num (rolling 50 1 mean xs)
                then [\<lparr>kind = Scatter, trace_name = ''50-Day MA'', trace_x = df_index df,
                       trace_y = Numbers (rolling 50 1 mean xs)\<rparr>]
                else [])
             @ (if ''MA200'' \<in> set (or_empty ma) \<and> \<not> list_all isnull_num (rolling 200 1 mean xs)
                then [\<lparr>kind = Scatter, trace_name = ''200-Day MA'', trace_x = df_index df,
                       trace_y = Numbers (rolling 200 1 mean xs)\<rparr>]
                else []),
           title_text = symbol @ '' Stock Price with Moving Averages''\<rparr>
     \<and> daily_returns_fig out =
          (if ''SHOW_RETURNS'' \<in> set (or_empty rt)
           then \<lparr>traces =
                   [\<lparr>kind = Bar, trace_name = ''Daily Return'', trace_x = df_index df,
                     trace_y = Numbers (map (\<lambda>v. num_mul v (Fin 100)) (pct_change pd xs))\<rparr>],
                 title_text = symbol @ '' Daily Return Rates (%)''\<rparr>
           else placeholder ''Daily Returns (Toggle On or No Data)'')
     \<and> volatility_fig out =
          (if ''SHOW_VOLATILITY'' \<in> set (or_empty vt)
           then \<lparr>traces =
                   [\<lparr>kind = Scatter, trace_name = ''30-Day Volatility'', trace_x = df_index df,
                     trace_y = Numbers (rolling 30 1 std xs)\<rparr>],
                 title_text = symbol @ '' 30-Day Price Volatility''\<rparr>
           else placeholder ''Volatility (Toggle On or No Data)'')"
proof -
  note fr = fetched_frame [OF f ne]
  from close have c0: "select df (Name ''Close'') = [Numbers xs]" by (simp add: series_iff)
  from fr(1) c0 have xs: "xs \<noteq> []" by (auto simp: numeric_cols_def)
  from fr(1) obtain vs where v0: "select df (Name ''Volume'') = [Numbers vs]" by auto
  have fresh: "length (select df (Name ''MA50'')) \<le> 1" "length (select df (Name ''MA200'')) \<le> 1"
      "length (select df (Name ''Daily Return'')) \<le> 1"
      "length (select df (Name ''Volatility'')) \<le> 1"
    using fr(2) by (simp_all add: required_cols_def)
  from price_chart_numeric [OF c0 fresh(1,2), of symbol "or_empty ma"] obtain df1 where
    p: "price_chart symbol (or_empty ma) df =
     Inr (df1,
          \<lparr>traces =
             \<lparr>kind = Scatter, trace_name = ''Close'', trace_x = df_index df,
               trace_y = Numbers xs\<rparr>
             # (if ''MA50'' \<in> set (or_empty ma) \<and> \<not> list_all isnull_num (rolling 50 1 mean xs)
                then [\<lparr>kind = Scatter, trace_name = ''50-Day MA'', trace_x = df_index df,
                       trace_y = Numbers (rolling 50 1 mean xs)\<rparr>]
                else [])
             @ (if ''MA200'' \<in> set (or_empty ma) \<and> \<not> list_all isnull_num (rolling 200 1 mean xs)
                then [\<lparr>kind = Scatter, trace_name = ''200-Day MA'', trace_x = df_index df,
                       trace_y = Numbers (rolling 200 1 mean xs)\<rparr>]
                else []),
           title_text = symbol @ '' Stock Price with Moving Averages''\<rparr>)"
    and i1: "df_index df1 = df_index df"
    and k1: "\<forall>l. l \<noteq> Name ''MA50'' \<and> l \<noteq> Name ''MA200'' \<longrightarrow> select df1 l = select df l"
    by blast
  from k1 c0 v0 fresh(3) have c1: "select df1 (Name ''Close'') = [Numbers xs]"
    and v1: "series df1 ''Volume'' = Inr (Numbers vs)"
    and f1: "length (select df1 (Name ''Daily Return'')) \<le> 1"
    by (simp_all add: series_iff)
  from daily_returns_chart_numeric [OF c1 xs f1, of pd symbol "or_empty rt"] obtain df2 where
    r: "daily_returns_chart pd symbol (or_empty rt) df1 =
     Inr (df2,
          if ''SHOW_RETURNS'' \<in> set (or_empty rt)
          then \<lparr>traces =
                  [\<lparr>kind = Bar, trace_name = ''Daily Return'', trace_x = df_index df1,
                    trace_y = Numbers (map (\<lambda>v. num_mul v (Fin 100)) (pct_change pd xs))\<rparr>],
                title_text = symbol @ '' Daily Return Rates (%)''\<rparr>
          else placeholder ''Daily Returns (Toggle On or No Data)'')"
    and i2: "df_index df2 = df_index df1"
    and k2: "\<forall>l. l \<noteq> Name ''Daily Return'' \<longrightarrow> select df2 l = select df1 l"
    by blast
  from k1 k2 c1 fresh(4) have c2: "select df2 (Name ''Close'') = [Numbers xs]"
    and f2: "length (select df2 (Name ''Volatility'')) \<le> 1"
    by simp_all
  from volatility_chart_numeric [OF c2 xs f2, of symbol "or_empty vt"] obtain df3 where
    vo: "volatility_chart symbol (or_empty vt) df2 =
     Inr (df3,
          if ''SHOW_VOLATILITY'' \<in> set (or_empty vt)
          then \<lparr>traces =
                  [\<lparr>kind = Scatter, trace_name = ''30-Day Volatility'', trace_x = df_index df2,
                    trace_y = Numbers (rolling 30 1 std xs)\<rparr>],
                title_text = symbol @ '' 30-Day Price Volatility''\<rparr>
          else placeholder ''Volatility (Toggle On or No Data)'')"
    by blast
  show ?thesis
    unfolding update_charts_fetched [OF sym f ne]
    by (simp add: charts_def p volume_chart_def v1 r vo i1 i2)
qed

lemma fetch_sample:
  "snd (fetch_stock_data pd0 (answers 200 (Inr (payload (JStr ''TEST'') sample_data)))
          ''TEST'' ''2024-01-01'' ''2024-01-02'' ''http://localhost:8000'') = Inr sample_frame"
  by (simp add: eval_defs)

lemma fetch_rise:
  "snd (fetch_stock_data pd0 (answers 200 (Inr (payload (JStr ''TEST'') rise_data)))
          ''TEST'' ''2024-01-01'' ''2024-01-02'' ''http://localhost:8000'') = Inr rise_frame"
  by (simp add: eval_defs)


lemma sample_close:
  "\<not> empty sample_frame" "series sample_frame ''Close'' = Inr (Numbers (map Fin [155, 158]))"
  by (simp_all add: empty_def nrows_def series_def getitem_def select_def sample_frame_def)

lemma rise_close:
  "\<not> empty rise_frame" "series rise_frame ''Close'' = Inr (Numbers (map Fin [100, 110]))"
  by (simp_all add: empty_def nrows_def series_def getitem_def select_def rise_frame_def)


lemma two_elements: "length ys = 2 \<Longrightarrow> ys = [ys ! 0, ys ! 1]"
  by (cases ys; cases "tl ys") auto

section \<open>Moving averages\<close>

text \<open>
  Claim C6. For a fetched frame that is not empty and whose \<^verbatim>\<open>Close\<close> values are
  finite numbers, the callback returns, and when \<^verbatim>\<open>MA50\<close> (\<^verbatim>\<open>MA200\<close>) is selected the
  price figure has the trace \<^verbatim>\<open>50-Day MA\<close> (\<^verbatim>\<open>200-Day MA\<close>) whose value at row \<open>t\<close>,
  counted from 0, is the arithmetic mean of \<^verbatim>\<open>Close\<close> over the rows
  \<open>t + 1 - n\<close> to \<open>t\<close>, \<open>n = min (t + 1) 50\<close> (\<open>200\<close>). The first value is the first
  \<^verbatim>\<open>Close\<close>, and for two rows the values are \<^verbatim>\<open>Close[0]\<close> and the mean of both.
\<close>

theorem moving_average_is_trailing_mean:
  assumes sym: "symbol \<noteq> []" "start_date \<noteq> []" "end_date \<noteq> []"
    and f: "snd (fetch_stock_data pd requests_get symbol start_date end_date ''http://localhost:8000'')
              = Inr df"
    and ne: "\<not> empty df"
    and close: "series df ''Close'' = Inr (Numbers (map Fin cs))"
  shows "\<exists>out. update_charts pd requests_get (Some symbol) (Some start_date) (Some end_date)
                 ma rt vt = Inr out
      \<and> (\<forall>(flag, w, name) \<in> {(''MA50'', 50 :: nat, ''50-Day MA''), (''MA200'', 200, ''200-Day MA'')}.
            flag \<in> set (or_empty ma) \<longrightarrow>
            (\<exists>ys. \<lparr>kind = Scatter, trace_name = name, trace_x = df_index df,
                     trace_y = Numbers ys\<rparr> \<in> set (traces (price_fig out))
               \<and> length ys = length cs
               \<and> (\<forall>t < length cs.
                     ys ! t = Fin ((\<Sum>i = Suc t - min (Suc t) w..<Suc t. cs ! i)
                                   / real (min (Suc t) w)))
               \<and> ys ! 0 = Fin (cs ! 0)
               \<and> (length cs = 2 \<longrightarrow> ys = [Fin (cs ! 0), Fin ((cs ! 0 + cs ! 1) / 2)])))"
proof -
  from update_charts_returns [OF sym f ne close, of ma rt vt] obtain out where
    out: "update_charts pd requests_get (Some symbol) (Some start_date) (Some end_date)
            ma rt vt = Inr out"
    and pf: "price_fig out =
      \<lparr>traces =
         \<lparr>kind = Scatter, trace_name = ''Close'', trace_x = df_index df,
           trace_y = Numbers (map Fin cs)\<rparr>
         # (if ''MA50'' \<in> set (or_empty ma) \<and> \<not> list_all isnull_num (rolling 50 1 mean (map Fin cs))
            then [\<lparr>kind = Scatter, trace_name = ''50-Day MA'', trace_x = df_index df,
                   trace_y = Numbers (rolling 50 1 mean (map Fin cs))\<rparr>]
            else [])
         @ (if ''MA200'' \<in> set (or_empty ma) \<and> \<not> list_all isnull_num (rolling 200 1 mean (map Fin cs))
            then [\<lparr>kind = Scatter, trace_name = ''200-Day MA'', trace_x = df_index df,
                   trace_y = Numbers (rolling 200 1 mean (map Fin cs))\<rparr>]
            else []),
       title_text = symbol @ '' Stock Price with Moving Averages''\<rparr>"
    by blast
  from fetched_frame(1) [OF f ne] close have cs: "cs \<noteq> []"
    by (auto simp: numeric_cols_def series_iff)
  have *: "\<exists>ys. \<lparr>kind = Scatter, trace_name = name, trace_x = df_index df,
                   trace_y = Numbers ys\<rparr> \<in> set (traces (price_fig out))
             \<and> length ys = length cs
             \<and> (\<forall>t < length cs.
                   ys ! t = Fin ((\<Sum>i = Suc t - min (Suc t) w..<Suc t. cs ! i)
                                 / real (min (Suc t) w)))
             \<and> ys ! 0 = Fin (cs ! 0)
             \<and> (length cs = 2 \<longrightarrow> ys = [Fin (cs ! 0), Fin ((cs ! 0 + cs ! 1) / 2)])"
    if w2: "2 \<le> w" and tr: "\<not> list_all isnull_num (rolling w 1 mean (map Fin cs)) \<Longrightarrow>
        \<lparr>kind = Scatter, trace_name = name, trace_x = df_index df,
          trace_y = Numbers (rolling w 1 mean (map Fin cs))\<rparr> \<in> set (traces (price_fig out))"
    for w name
  proof -
    let ?ys = "rolling w 1 mean (map Fin cs)"
    from w2 have w: "0 < w" by simp
    note r = rolling_mean_finite [OF w, of cs]
    have len: "length ?ys = length cs" unfolding r by simp
    have nth: "?ys ! t = Fin ((\<Sum>i = Suc t - min (Suc t) w..<Suc t. cs ! i) / real (min (Suc t) w))"
      if "t < length cs" for t
      using that by (simp only: r nth_map_upt diff_zero add_0)
    from cs have pos: "0 < length cs" by simp
    have first: "?ys ! 0 = Fin (cs ! 0)"
      using nth [OF pos] w by simp
    have "\<not> list_all isnull_num ?ys"
    proof
      assume "list_all isnull_num ?ys"
      then have "isnull_num (?ys ! 0)" using len pos by (simp add: list_all_length)
      with first show False by simp
    qed
    note here = tr [OF this]
    have two: "?ys = [Fin (cs ! 0), Fin ((cs ! 0 + cs ! 1) / 2)]" if l: "length cs = 2"
    proof -
      from l have "[0..<length cs] = [0, 1]" by (simp add: upt_rec)
      with w2 show ?thesis unfolding r
        by (simp add: min_def)
    qed
    show ?thesis using here len nth first two by blast
  qed
  from pf have p: "traces (price_fig out) =
      \<lparr>kind = Scatter, trace_name = ''Close'', trace_x = df_index df,
        trace_y = Numbers (map Fin cs)\<rparr>
      # (if ''MA50'' \<in> set (or_empty ma) \<and> \<not> list_all isnull_num (rolling 50 1 mean (map Fin cs))
         then [\<lparr>kind = Scatter, trace_name = ''50-Day MA'', trace_x = df_index df,
                trace_y = Numbers (rolling 50 1 mean (map Fin cs))\<rparr>]
         else [])
      @ (if ''MA200'' \<in> set (or_empty ma) \<and> \<not> list_all isnull_num (rolling 200 1 mean (map Fin cs))
         then [\<lparr>kind = Scatter, trace_name = ''200-Day MA'', trace_x = df_index df,
                trace_y = Numbers (rolling 200 1 mean (map Fin cs))\<rparr>]
         else [])"
    by simp
  have "''MA50'' \<in> set (or_empty ma) \<longrightarrow>
      (\<exists>ys. \<lparr>kind = Scatter, trace_name = ''50-Day MA'', trace_x = df_index df,
               trace_y = Numbers ys\<rparr> \<in> set (traces (price_fig out))
         \<and> length ys = length cs
         \<and> (\<forall>t < length cs.
               ys ! t = Fin ((\<Sum>i = Suc t - min (Suc t) 50..<Suc t. cs ! i)
                             / real (min (Suc t) 50)))
         \<and> ys ! 0 = Fin (cs ! 0)
         \<and> (length cs = 2 \<longrightarrow> ys = [Fin (cs ! 0), Fin ((cs ! 0 + cs ! 1) / 2)]))"
    by (intro impI * [of 50 "''50-Day MA''"]) (simp_all add: p)
  moreover have "''MA200'' \<in> set (or_empty ma) \<longrightarrow>
      (\<exists>ys. \<lparr>kind = Scatter, trace_name = ''200-Day MA'', trace_x = df_index df,
               trace_y = Numbers ys\<rparr> \<in> set (traces (price_fig out))
         \<and> length ys = length cs
         \<and> (\<forall>t < length cs.
               ys ! t = Fin ((\<Sum>i = Suc t - min (Suc t) 200..<Suc t. cs ! i)
                             / real (min (Suc t) 200)))
         \<and> ys ! 0 = Fin (cs ! 0)
         \<and> (length cs = 2 \<longrightarrow> ys = [Fin (cs ! 0), Fin ((cs ! 0 + cs ! 1) / 2)]))"
    by (intro impI * [of 200 "''200-Day MA''"]) (simp_all add: p)
  ultimately have "\<forall>(flag, w, name) \<in> {(''MA50'', 50 :: nat, ''50-Day MA''), (''MA200'', 200, ''200-Day MA'')}.
            flag \<in> set (or_empty ma) \<longrightarrow>
            (\<exists>ys. \<lparr>kind = Scatter, trace_name = name, trace_x = df_index df,
                     trace_y = Numbers ys\<rparr> \<in> set (traces (price_fig out))
               \<and> length ys = length cs
               \<and> (\<forall>t < length cs.
                     ys ! t = Fin ((\<Sum>i = Suc t - min (Suc t) w..<Suc t. cs ! i)
                                   / real (min (Suc t) w)))
               \<and> ys ! 0 = Fin (cs ! 0)
               \<and> (length cs = 2 \<longrightarrow> ys = [Fin (cs ! 0), Fin ((cs ! 0 + cs ! 1) / 2)]))"
    by (simp only: ball_simps prod.case simp_thms)
  with out show ?thesis by blast
qed

theorem moving_average_is_trailing_mean_witness:
  "\<exists>out. update_charts pd0 (answers 200 (Inr (payload (JStr ''TEST'') sample_data)))
            (Some ''TEST'') (Some ''2024-01-01'') (Some ''2024-01-02'')
            (Some [''MA50'', ''MA200'']) None None = Inr out
     \<and> \<lparr>kind = Scatter, trace_name = ''50-Day MA'', trace_x = df_index sample_frame,
          trace_y = Numbers [Fin 155, Fin (313 / 2)]\<rparr> \<in> set (traces (price_fig out))
     \<and> \<lparr>kind = Scatter, trace_name = ''200-Day MA'', trace_x = df_index sample_frame,
          trace_y = Numbers [Fin 155, Fin (313 / 2)]\<rparr> \<in> set (traces (price_fig out))"
proof -
  from moving_average_is_trailing_mean
    [where pd = pd0 and symbol = "''TEST''" and start_date = "''2024-01-01''"
       and end_date = "''2024-01-02''" and df = sample_frame and cs = "[155, 158]"
       and requests_get = "answers 200 (Inr (payload (JStr ''TEST'') sample_data))"
       and ma = "Some [''MA50'', ''MA200'']" and rt = None and vt = None,
     OF _ _ _ fetch_sample sample_close]
  obtain out where
    out: "update_charts pd0 (answers 200 (Inr (payload (JStr ''TEST'') sample_data)))
            (Some ''TEST'') (Some ''2024-01-01'') (Some ''2024-01-02'')
            (Some [''MA50'', ''MA200'']) None None = Inr out"
    and every: "\<forall>(flag, w, name) \<in> {(''MA50'', 50 :: nat, ''50-Day MA''), (''MA200'', 200, ''200-Day MA'')}.
            flag \<in> set (or_empty (Some [''MA50'', ''MA200''])) \<longrightarrow>
            (\<exists>ys. \<lparr>kind = Scatter, trace_name = name, trace_x = df_index sample_frame,
                     trace_y = Numbers ys\<rparr> \<in> set (traces (price_fig out))
               \<and> length ys = length [155 :: real, 158]
               \<and> (\<forall>t < length [155 :: real, 158].
                     ys ! t = Fin ((\<Sum>i = Suc t - min (Suc t) w..<Suc t. [155, 158] ! i)
                                   / real (min (Suc t) w)))
               \<and> ys ! 0 = Fin ([155, 158] ! 0)
               \<and> (length [155 :: real, 158] = 2
                    \<longrightarrow> ys = [Fin ([155, 158] ! 0), Fin (([155, 158] ! 0 + [155, 158] ! 1) / 2)]))"
    by auto
  from every have
    "\<exists>ys. \<lparr>kind = Scatter, trace_name = ''50-Day MA'', trace_x = df_index sample_frame,
             trace_y = Numbers ys\<rparr> \<in> set (traces (price_fig out))
        \<and> ys = [Fin 155, Fin (313 / 2)]"
    by (auto simp: or_empty_def)
  moreover from every have
    "\<exists>ys. \<lparr>kind = Scatter, trace_name = ''200-Day MA'', trace_x = df_index sample_frame,
             trace_y = Numbers ys\<rparr> \<in> set (traces (price_fig out))
        \<and> ys = [Fin 155, Fin (313 / 2)]"
    by (auto simp: or_empty_def)
  ultimately show ?thesis using out by auto
qed



section \<open>Daily returns\<close>



section \<open>Volatility\<close>

text \<open>
  Claim C8. For a fetched frame that is not empty and whose \<^verbatim>\<open>Close\<close> values are
  finite numbers, with \<^verbatim>\<open>SHOW_VOLATILITY\<close> selected, the volatility figure has one
  trace; its first value, the deviation of a single sample, is NaN, and its value at
  every row \<open>t \<ge> 1\<close> is the sample standard deviation (divisor \<open>n - 1\<close>) of
  \<^verbatim>\<open>Close\<close> over the rows \<open>t + 1 - n\<close> to \<open>t\<close>, \<open>n = min (t + 1) 30\<close>.
\<close>

theorem volatility_is_trailing_sample_deviation:
  assumes sym: "symbol \<noteq> []" "start_date \<noteq> []" "end_date \<noteq> []"
    and f: "snd (fetch_stock_data pd requests_get symbol start_date end_date ''http://localhost:8000'')
              = Inr df"
    and ne: "\<not> empty df"
    and close: "series df ''Close'' = Inr (Numbers (map Fin cs))"
    and shown: "''SHOW_VOLATILITY'' \<in> set (or_empty vt)"
  shows "\<exists>out ys. update_charts pd requests_get (Some symbol) (Some start_date) (Some end_date)
                 ma rt vt = Inr out
      \<and> traces (volatility_fig out) =
           [\<lparr>kind = Scatter, trace_name = ''30-Day Volatility'', trace_x = df_index df,
             trace_y = Numbers ys\<rparr>]
      \<and> length ys = length cs
      \<and> ys ! 0 = NaN
      \<and> (\<forall>t. 1 \<le> t \<and> t < length cs \<longrightarrow>
            ys ! t =
              Fin (sqrt ((\<Sum>i = Suc t - min (Suc t) 30..<Suc t.
                            (cs ! i
                             - (\<Sum>j = Suc t - min (Suc t) 30..<Suc t. cs ! j)
                                 / real (min (Suc t) 30))\<^sup>2)
                         / real (min (Suc t) 30 - 1))))"
proof -
  from update_charts_returns [OF sym f ne close, of ma rt vt] obtain out where
    out: "update_charts pd requests_get (Some symbol) (Some start_date) (Some end_date)
            ma rt vt = Inr out"
    and vf: "volatility_fig out =
          (if ''SHOW_VOLATILITY'' \<in> set (or_empty vt)
           then \<lparr>traces =
                   [\<lparr>kind = Scatter, trace_name = ''30-Day Volatility'', trace_x = df_index df,
                     trace_y = Numbers (rolling 30 1 std (map Fin cs))\<rparr>],
                 title_text = symbol @ '' 30-Day Price Volatility''\<rparr>
           else placeholder ''Volatility (Toggle On or No Data)'')"
    by blast
  from fetched_frame(1) [OF f ne] close have cs: "cs \<noteq> []"
    by (auto simp: numeric_cols_def series_iff)
  then have xs: "map Fin cs \<noteq> []" by simp
  let ?ys = "rolling 30 1 std (map Fin cs)"
  let ?f = "\<lambda>t. if t = 0 then NaN
        else Fin (sqrt ((\<Sum>i = Suc t - min (Suc t) 30..<Suc t.
                           (cs ! i
                            - (\<Sum>j = Suc t - min (Suc t) 30..<Suc t. cs ! j)
                                / real (min (Suc t) 30))\<^sup>2)
                        / real (min (Suc t) 30 - 1)))"
  have r: "?ys = map ?f [0..<length cs]" by (rule rolling_std_finite)
  from vf shown have "volatility_fig out =
      \<lparr>traces = [\<lparr>kind = Scatter, trace_name = ''30-Day Volatility'', trace_x = df_index df,
                   trace_y = Numbers ?ys\<rparr>],
       title_text = symbol @ '' 30-Day Price Volatility''\<rparr>"
    by (simp only: if_True)
  then have tr: "traces (volatility_fig out) =
      [\<lparr>kind = Scatter, trace_name = ''30-Day Volatility'', trace_x = df_index df,
        trace_y = Numbers ?ys\<rparr>]"
    by simp
  have len: "length ?ys = length cs" by (simp only: r length_map length_upt diff_zero)
  have nth: "?ys ! t = ?f t" if "t < length cs" for t
    using that by (simp only: r nth_map_upt diff_zero add_0)
  from cs have "0 < length cs" by simp
  from nth [OF this] have first: "?ys ! 0 = NaN" by (simp only: refl if_True)
  have later: "?ys ! t = Fin (sqrt ((\<Sum>i = Suc t - min (Suc t) 30..<Suc t.
                            (cs ! i
                             - (\<Sum>j = Suc t - min (Suc t) 30..<Suc t. cs ! j)
                                 / real (min (Suc t) 30))\<^sup>2)
                         / real (min (Suc t) 30 - 1)))"
    if "1 \<le> t \<and> t < length cs" for t
  proof -
    from that have "t \<noteq> 0" "t < length cs" by simp_all
    then show ?thesis by (simp only: nth if_False)
  qed
  from out tr len first later show ?thesis by blast
qed

theorem volatility_is_trailing_sample_deviation_witness:
  "\<exists>out. update_charts pd0 (answers 200 (Inr (payload (JStr ''TEST'') rise_data)))
            (Some ''TEST'') (Some ''2024-01-01'') (Some ''2024-01-02'')
            None None (Some [''SHOW_VOLATILITY'']) = Inr out
     \<and> traces (volatility_fig out) =
          [\<lparr>kind = Scatter, trace_name = ''30-Day Volatility'', trace_x = df_index rise_frame,
            trace_y = Numbers [NaN, Fin (sqrt 50)]\<rparr>]"
proof -
  from volatility_is_trailing_sample_deviation
    [where pd = pd0 and symbol = "''TEST''" and start_date = "''2024-01-01''"
       and end_date = "''2024-01-02''" and df = rise_frame and cs = "[100, 110]"
       and requests_get = "answers 200 (Inr (payload (JStr ''TEST'') rise_data))"
       and ma = None and rt = None and vt = "Some [''SHOW_VOLATILITY'']",
     OF _ _ _ fetch_rise rise_close]
  obtain out ys where
    out: "update_charts pd0 (answers 200 (Inr (payload (JStr ''TEST'') rise_data)))
            (Some ''TEST'') (Some ''2024-01-01'') (Some ''2024-01-02'')
            None None (Some [''SHOW_VOLATILITY'']) = Inr out"
    and tr: "traces (volatility_fig out) =
          [\<lparr>kind = Scatter, trace_name = ''30-Day Volatility'', trace_x = df_index rise_frame,
            trace_y = Numbers ys\<rparr>]"
    and len: "length ys = 2" and first: "ys ! 0 = NaN"
    and later: "\<forall>t. 1 \<le> t \<and> t < length [100 :: real, 110] \<longrightarrow>
            ys ! t =
              Fin (sqrt ((\<Sum>i = Suc t - min (Suc t) 30..<Suc t.
                            ([100, 110] ! i
                             - (\<Sum>j = Suc t - min (Suc t) 30..<Suc t. [100, 110] ! j)
                                 / real (min (Suc t) 30))\<^sup>2)
                         / real (min (Suc t) 30 - 1)))"
    by (auto simp: or_empty_def)
  from later have "ys ! 1 = Fin (sqrt 50)"
    by (simp add: eval_nat_numeral)
  with two_elements [OF len] first have "ys = [NaN, Fin (sqrt 50)]" by simp
  with out tr show ?thesis by simp
qed

end
